theory Spec2Isabelle
  imports Complex_Main "HOL-Library.Char_ord" "HOL-Library.List_Lexorder"
    "HOL-Library.Log_Nat" "HOL-Library.Sublist"
begin

section \<open>Python values\<close>

text \<open>
  The service is a Python program (\<^verbatim>\<open>app/exchange_rate_server.py\<close>) whose data are
  dynamically typed: a rate is whatever JSON value an upstream provider put under the
  target currency. The values are modelled as they are at run time.

  A float is an IEEE binary64 number. A finite one is represented by its exact rational
  value; the sign of zero is not represented (\<open>-0.0\<close> and \<open>0.0\<close> are both \<open>Fin 0\<close>:
  they compare equal in Python, both are falsy, and dividing by either raises).
\<close>

datatype pyfloat = Fin rat | PosInf | NegInf | NaN

datatype pyval =
    PNone
  | PBool bool
  | PInt int
  | PFloat pyfloat
  | PStr string
  | PList "pyval list"
  | PDict "(string \<times> pyval) list"

text \<open>Exceptions the modelled code can meet, by class.\<close>

datatype exc =
    Timeout | ConnectionError | HTTPError | RequestException
  | JSONDecodeError
  | AttributeError | TypeError | KeyError | ValueError | OverflowError
  | ZeroDivisionError | UnboundLocalError

definition ebind :: "exc + 'a \<Rightarrow> ('a \<Rightarrow> exc + 'b) \<Rightarrow> exc + 'b" where
  "ebind m f = (case m of Inl e \<Rightarrow> Inl e | Inr x \<Rightarrow> f x)"

subsection \<open>Binary64 arithmetic\<close>

text \<open>Round a rational to the nearest integer, ties to even.\<close>

definition rne :: "rat \<Rightarrow> int" where
  "rne q =
     (let f = \<lfloor>q\<rfloor>; r = q - of_int f
      in if r < 1 / 2 then f
         else if 1 / 2 < r then f + 1
         else if even f then f else f + 1)"

text \<open>\<open>ilog2 q\<close> is \<open>\<lfloor>log\<^sub>2 q\<rfloor>\<close> for a positive rational \<open>q\<close>.\<close>

definition ilog2 :: "rat \<Rightarrow> int" where
  "ilog2 q =
     (let (n, d) = quotient_of q; e = bitlen n - bitlen d
      in if power_int 2 e \<le> q then e else e - 1)"

text \<open>
  \<open>fl q\<close> is the binary64 number nearest to \<open>q\<close> (ties to even). A binary64 number has
  53 significant bits: around \<open>q\<close> the numbers are the multiples of \<open>fulp q\<close>, a unit in
  the last place, which is \<open>2\<^sup>e\<^sup>-\<^sup>5\<^sup>2\<close> for the binary exponent \<open>e\<close> of \<open>q\<close> and never less than
  \<open>2\<^sup>-\<^sup>1\<^sup>0\<^sup>7\<^sup>4\<close> (subnormal numbers). A rounded value of magnitude \<open>2\<^sup>1\<^sup>0\<^sup>2\<^sup>4\<close> or more
  overflows to an infinity.
\<close>

definition fexp :: "rat \<Rightarrow> int" where
  "fexp q = max (ilog2 \<bar>q\<bar>) (- 1022)"

definition fulp :: "rat \<Rightarrow> rat" where
  "fulp q = power_int 2 (fexp q - 52)"

definition fround :: "rat \<Rightarrow> rat" where
  "fround q = of_int (rne (q / fulp q)) * fulp q"

definition fl :: "rat \<Rightarrow> pyfloat" where
  "fl q =
     (if q = 0 then Fin 0
      else if 2 ^ 1024 \<le> \<bar>fround q\<bar> then (if 0 < q then PosInf else NegInf)
      else Fin (fround q))"

text \<open>Float multiplication, subtraction, addition and division (\<open>x * y\<close>, \<open>x - y\<close>, ...).\<close>

fun fsign :: "pyfloat \<Rightarrow> int" where
  "fsign (Fin x) = (if x < 0 then - 1 else if x = 0 then 0 else 1)"
| "fsign PosInf = 1"
| "fsign NegInf = - 1"
| "fsign NaN = 0"

definition finf :: "int \<Rightarrow> pyfloat" where
  "finf s = (if s = 0 then NaN else if 0 < s then PosInf else NegInf)"

fun fmul :: "pyfloat \<Rightarrow> pyfloat \<Rightarrow> pyfloat" where
  "fmul (Fin x) (Fin y) = fl (x * y)"
| "fmul NaN b = NaN"
| "fmul a NaN = NaN"
| "fmul a b = finf (fsign a * fsign b)"

fun fneg :: "pyfloat \<Rightarrow> pyfloat" where
  "fneg (Fin x) = Fin (- x)"
| "fneg PosInf = NegInf"
| "fneg NegInf = PosInf"
| "fneg NaN = NaN"

fun fadd :: "pyfloat \<Rightarrow> pyfloat \<Rightarrow> pyfloat" where
  "fadd (Fin x) (Fin y) = fl (x + y)"
| "fadd NaN b = NaN"
| "fadd a NaN = NaN"
| "fadd (Fin x) b = b"
| "fadd a (Fin y) = a"
| "fadd a b = (if a = b then a else NaN)"

definition fsub :: "pyfloat \<Rightarrow> pyfloat \<Rightarrow> pyfloat" where
  "fsub a b = fadd a (fneg b)"

text \<open>Python's float division raises on a zero divisor.\<close>

fun fdiv :: "pyfloat \<Rightarrow> pyfloat \<Rightarrow> exc + pyfloat" where
  "fdiv a (Fin y) =
     (if y = 0 then Inl ZeroDivisionError
      else case a of Fin x \<Rightarrow> Inr (fl (x / y)) | NaN \<Rightarrow> Inr NaN
           | _ \<Rightarrow> Inr (finf (fsign a * fsign (Fin y))))"
| "fdiv NaN b = Inr NaN"
| "fdiv a NaN = Inr NaN"
| "fdiv (Fin x) b = Inr (Fin 0)"
| "fdiv a b = Inr NaN"

text \<open>\<open>x <= y\<close> on floats: every comparison with a NaN is false.\<close>

fun fle :: "pyfloat \<Rightarrow> pyfloat \<Rightarrow> bool" where
  "fle NaN b = False"
| "fle a NaN = False"
| "fle (Fin x) (Fin y) = (x \<le> y)"
| "fle NegInf b = True"
| "fle a PosInf = True"
| "fle a b = False"

text \<open>
  \<open>float(n)\<close> for an int, as the mixed operations \<open>amount * rate\<close> and \<open>1 / rate\<close> convert
  an int operand: correctly rounded, OverflowError beyond the float range.
\<close>

definition float_of_int :: "int \<Rightarrow> exc + pyfloat" where
  "float_of_int n = (case fl (of_int n) of Fin x \<Rightarrow> Inr (Fin x) | _ \<Rightarrow> Inl OverflowError)"

subsection \<open>Operations on values\<close>

text \<open>Truth value testing, \<open>if rate:\<close>.\<close>

fun truthy :: "pyval \<Rightarrow> bool" where
  "truthy PNone = False"
| "truthy (PBool b) = b"
| "truthy (PInt n) = (n \<noteq> 0)"
| "truthy (PFloat f) = (f \<noteq> Fin 0)"
| "truthy (PStr s) = (s \<noteq> [])"
| "truthy (PList xs) = (xs \<noteq> [])"
| "truthy (PDict kvs) = (kvs \<noteq> [])"

text \<open>\<open>d.get(key, default)\<close>: only a dict has the method.\<close>

fun py_get :: "pyval \<Rightarrow> string \<Rightarrow> pyval \<Rightarrow> exc + pyval" where
  "py_get (PDict kvs) k dflt = Inr (case map_of kvs k of Some v \<Rightarrow> v | None \<Rightarrow> dflt)"
| "py_get v k dflt = Inl AttributeError"

text \<open>\<open>rate != 0\<close>.\<close>

fun py_ne_zero :: "pyval \<Rightarrow> bool" where
  "py_ne_zero (PBool b) = b"
| "py_ne_zero (PInt n) = (n \<noteq> 0)"
| "py_ne_zero (PFloat f) = (f \<noteq> Fin 0)"
| "py_ne_zero v = True"

text \<open>\<open>1 / rate\<close>: true division of the int 1 by a value.\<close>

fun py_one_div :: "pyval \<Rightarrow> exc + pyval" where
  "py_one_div (PInt n) =
     (if n = 0 then Inl ZeroDivisionError else Inr (PFloat (fl (1 / of_int n))))"
| "py_one_div (PBool b) = (if b then Inr (PFloat (Fin 1)) else Inl ZeroDivisionError)"
| "py_one_div (PFloat f) = map_sum id PFloat (fdiv (Fin 1) f)"
| "py_one_div v = Inl TypeError"

text \<open>\<open>amount * rate\<close> with a float \<open>amount\<close>.\<close>

fun py_float_mul :: "pyfloat \<Rightarrow> pyval \<Rightarrow> exc + pyval" where
  "py_float_mul a (PFloat f) = Inr (PFloat (fmul a f))"
| "py_float_mul a (PInt n) = map_sum id (\<lambda>f. PFloat (fmul a f)) (float_of_int n)"
| "py_float_mul a (PBool b) = Inr (PFloat (fmul a (Fin (if b then 1 else 0))))"
| "py_float_mul a v = Inl TypeError"

section \<open>Configuration\<close>

text \<open>
  An entry of \<open>EXCHANGE_RATE_APIS\<close>; the fields are the dict's keys \<open>name\<close>, \<open>url\<close>,
  \<open>requires_key\<close>, \<open>rate_limit\<close> and \<open>timeout\<close>.
\<close>

record api_config =
  api_name :: string
  api_url :: string
  requires_key :: bool
  rate_limit :: nat
  api_timeout :: nat

definition EXCHANGE_RATE_APIS :: "api_config list" where
  "EXCHANGE_RATE_APIS =
     [\<lparr>api_name = ''ExchangeRate-API'',
       api_url = ''https://api.exchangerate-api.com/v4/latest/{base}'',
       requires_key = False, rate_limit = 1500, api_timeout = 10\<rparr>,
      \<lparr>api_name = ''Frankfurter'',
       api_url = ''https://api.frankfurter.app/latest?from={base}&to={target}'',
       requires_key = False, rate_limit = 1000, api_timeout = 10\<rparr>,
      \<lparr>api_name = ''OpenExchangeRates'',
       api_url = ''https://open.er-api.com/v6/latest/{base}'',
       requires_key = False, rate_limit = 1500, api_timeout = 10\<rparr>]"

text \<open>The keys of \<open>CURRENCY_DATA\<close> with the \<open>name\<close> of each (the flags are not used).\<close>

definition CURRENCY_DATA :: "(string \<times> string) list" where
  "CURRENCY_DATA =
     [(''USD'', ''United States Dollar''), (''EUR'', ''Euro''), (''GBP'', ''British Pound''),
      (''JPY'', ''Japanese Yen''), (''CNY'', ''Chinese Yuan''), (''CAD'', ''Canadian Dollar''),
      (''AUD'', ''Australian Dollar''), (''CHF'', ''Swiss Franc''),
      (''HKD'', ''Hong Kong Dollar''), (''SGD'', ''Singapore Dollar''),
      (''KRW'', ''South Korean Won''), (''INR'', ''Indian Rupee''), (''RUB'', ''Russian Ruble''),
      (''BRL'', ''Brazilian Real''), (''MXN'', ''Mexican Peso''), (''AED'', ''UAE Dirham''),
      (''TRY'', ''Turkish Lira''), (''ZAR'', ''South African Rand''),
      (''SEK'', ''Swedish Krona''), (''NZD'', ''New Zealand Dollar'')]"

definition supported :: "string \<Rightarrow> bool" where
  "supported code = (map_of CURRENCY_DATA code \<noteq> None)"

definition CACHE_DURATION :: int where
  "CACHE_DURATION = 300"

section \<open>The outside world\<close>

text \<open>
  A \<open>datetime\<close> is a count of microseconds since \<open>datetime.min\<close> (0001-01-01 00:00:00);
  \<open>datetime.max\<close> is the last microsecond of 9999-12-31, day 3652059 of the calendar.
  Subtracting a \<open>timedelta\<close> raises OverflowError outside that range, and \<open>timedelta\<close>
  itself raises beyond 999999999 days.
\<close>

type_synonym datetime = int

definition timedelta_seconds :: "int \<Rightarrow> int" where
  "timedelta_seconds s = s * 1000000"

definition timedelta_days :: "int \<Rightarrow> exc + int" where
  "timedelta_days d =
     (if \<bar>d\<bar> \<le> 999999999 then Inr (d * 86400000000) else Inl OverflowError)"

definition DATETIME_END :: int where
  "DATETIME_END = 3652059 * 86400000000"

definition datetime_sub :: "datetime \<Rightarrow> int \<Rightarrow> exc + datetime" where
  "datetime_sub t delta =
     (let r = t - delta in if 0 \<le> r \<and> r < DATETIME_END then Inr r else Inl OverflowError)"

text \<open>
  Functions of Python and its libraries that the program calls and whose results only
  pass through: text formatting and parsing. They are parameters of the model.
\<close>

record pylib =
  strftime_ymd :: "datetime \<Rightarrow> string"        \<comment> \<open>\<open>strftime('%Y-%m-%d')\<close>\<close>
  strftime_ymd_hms :: "datetime \<Rightarrow> string"    \<comment> \<open>\<open>strftime('%Y-%m-%d %H:%M:%S')\<close>\<close>
  str_upper :: "string \<Rightarrow> string"             \<comment> \<open>\<open>str.upper\<close>\<close>
  str_of_exc :: "exc \<Rightarrow> string"               \<comment> \<open>\<open>str(e)\<close>\<close>
  int_of_str :: "string \<Rightarrow> int option"        \<comment> \<open>\<open>int(s)\<close>, None for ValueError\<close>
  float_of_str :: "string \<Rightarrow> pyfloat option"  \<comment> \<open>\<open>float(s)\<close>, None for ValueError\<close>
  format_2f :: "pyfloat \<Rightarrow> string"            \<comment> \<open>\<open>f"{x:,.2f}"\<close>\<close>

text \<open>
  What \<open>requests.get(url, timeout=...)\<close> does: it raises, or returns a response with a
  status code whose \<open>.json()\<close> raises or yields a value.
\<close>

datatype http_result = Raises exc | Response int "exc + pyval"

text \<open>
  The world as one request of the service sees it: the upstream servers, the clock at
  the points where the program reads it, and the successive results of
  \<open>random.random()\<close>.
\<close>

record world =
  requests_get :: "string \<Rightarrow> nat \<Rightarrow> http_result"
  now_cache_read :: datetime     \<comment> \<open>\<open>datetime.now()\<close> in \<open>get_cached_rate\<close>\<close>
  now_cache_write :: datetime    \<comment> \<open>\<open>datetime.now()\<close> in \<open>set_cached_rate\<close>\<close>
  now_fetch :: datetime          \<comment> \<open>\<open>datetime.now()\<close> in \<open>get_exchange_rate_from_api\<close>\<close>
  now_hist_api :: datetime       \<comment> \<open>\<open>datetime.now()\<close> in \<open>get_historical_data_from_api\<close>\<close>
  now_hist_gen :: datetime       \<comment> \<open>\<open>datetime.now()\<close> in \<open>generate_historical_data\<close>\<close>
  now_response :: datetime       \<comment> \<open>\<open>datetime.now()\<close> for the response's time stamps\<close>
  random_random :: "nat \<Rightarrow> pyfloat"

section \<open>Rate cache\<close>

text \<open>
  \<open>exchange_rate_cache\<close> is a module-level dict from the key \<open>f"{base}_{target}"\<close> to an
  entry with the keys \<open>rate\<close>, \<open>source\<close> and \<open>timestamp\<close>. Every function that touches it
  takes the dict and returns it.
\<close>

record cache_entry =
  c_rate :: pyval
  c_source :: string
  c_timestamp :: datetime

type_synonym cache = "string \<rightharpoonup> cache_entry"

definition cache_key :: "string \<Rightarrow> string \<Rightarrow> string" where
  "cache_key base_currency target_currency = base_currency @ ''_'' @ target_currency"

definition get_cached_rate ::
  "cache \<Rightarrow> datetime \<Rightarrow> string \<Rightarrow> string \<Rightarrow> (pyval \<times> pyval) \<times> cache" where
  "get_cached_rate exchange_rate_cache now base_currency target_currency =
     (case exchange_rate_cache (cache_key base_currency target_currency) of
        Some cached_data \<Rightarrow>
          if now - c_timestamp cached_data < timedelta_seconds CACHE_DURATION
          then ((c_rate cached_data, PStr (c_source cached_data)), exchange_rate_cache)
          else ((PNone, PNone), exchange_rate_cache)
      | None \<Rightarrow> ((PNone, PNone), exchange_rate_cache))"

definition set_cached_rate ::
  "cache \<Rightarrow> datetime \<Rightarrow> string \<Rightarrow> string \<Rightarrow> pyval \<Rightarrow> string \<Rightarrow> cache" where
  "set_cached_rate exchange_rate_cache now base_currency target_currency rate source =
     exchange_rate_cache(cache_key base_currency target_currency \<mapsto>
       \<lparr>c_rate = rate, c_source = source, c_timestamp = now\<rparr>)"

section \<open>Upstream fetcher\<close>

text \<open>
  \<open>template.format(base=..., target=...)\<close> for the URL templates, which hold the
  replacement fields \<open>{base}\<close> and \<open>{target}\<close> only. A field whose keyword argument is
  not passed raises KeyError.
\<close>

fun url_format :: "string \<Rightarrow> string \<Rightarrow> string option \<Rightarrow> exc + string" where
  "url_format [] b t = Inr []"
| "url_format (c # cs) b t =
     (if take 6 (c # cs) = ''{base}'' then map_sum id (\<lambda>r. b @ r) (url_format (drop 5 cs) b t)
      else if take 8 (c # cs) = ''{target}'' then
        (case t of None \<Rightarrow> Inl KeyError
         | Some tv \<Rightarrow> map_sum id (\<lambda>r. tv @ r) (url_format (drop 7 cs) b t))
      else map_sum id (\<lambda>r. c # r) (url_format cs b t))"

text \<open>The dict that \<open>get_exchange_rate_from_api\<close> returns: keys \<open>rate\<close>, \<open>date\<close>, \<open>source\<close>.\<close>

record api_result =
  r_rate :: pyval
  r_date :: pyval
  r_source :: string

text \<open>
  The messages appended to the local list \<open>errors\<close>, one constructor per message
  format, each with the provider's name.
\<close>

datatype diag =
    NoRateData string           \<comment> \<open>no rate found in the response\<close>
  | HttpStatus string int       \<comment> \<open>\<open>HTTP {status_code}\<close>\<close>
  | TimedOut string
  | ConnectionFailed string
  | RequestFailed string string \<comment> \<open>with \<open>str(e)\<close>\<close>
  | BadFormat string
  | UnknownError string string  \<comment> \<open>with \<open>str(e)\<close>\<close>

text \<open>The \<open>except\<close> clauses of the loop body, in their order.\<close>

fun on_exception :: "pylib \<Rightarrow> string \<Rightarrow> exc \<Rightarrow> diag" where
  "on_exception L n Timeout = TimedOut n"
| "on_exception L n ConnectionError = ConnectionFailed n"
| "on_exception L n HTTPError = RequestFailed n (str_of_exc L HTTPError)"
| "on_exception L n RequestException = RequestFailed n (str_of_exc L RequestException)"
| "on_exception L n JSONDecodeError = BadFormat n"
| "on_exception L n e = UnknownError n (str_of_exc L e)"

text \<open>
  The two \<open>if/elif\<close> chains on the provider's name. A name outside the three leaves
  \<open>url\<close> (and \<open>rate\<close>) unassigned; \<open>EXCHANGE_RATE_APIS\<close> holds no such name.
\<close>

definition build_url :: "api_config \<Rightarrow> string \<Rightarrow> string \<Rightarrow> exc + string" where
  "build_url api_config base_currency target_currency =
     (if api_name api_config = ''ExchangeRate-API'' then
        url_format (api_url api_config) base_currency None
      else if api_name api_config = ''Frankfurter'' then
        url_format (api_url api_config) base_currency (Some target_currency)
      else if api_name api_config = ''OpenExchangeRates'' then
        url_format (api_url api_config) base_currency None
      else Inl UnboundLocalError)"

definition extract_rate :: "api_config \<Rightarrow> pyval \<Rightarrow> string \<Rightarrow> exc + pyval" where
  "extract_rate api_config data target_currency =
     (if api_name api_config = ''ExchangeRate-API'' then
        ebind (py_get data ''rates'' (PDict [])) (\<lambda>rates. py_get rates target_currency PNone)
      else if api_name api_config = ''Frankfurter'' then
        ebind (py_get data ''rates'' (PDict [])) (\<lambda>rates. py_get rates target_currency PNone)
      else if api_name api_config = ''OpenExchangeRates'' then
        ebind (py_get data ''rates'' (PDict [])) (\<lambda>rates. py_get rates target_currency PNone)
      else Inl UnboundLocalError)"

text \<open>
  One iteration of the loop over \<open>EXCHANGE_RATE_APIS\<close>: the \<open>try\<close> body. The result is
  the URL requested, if the iteration got as far as the request, and either the dict
  returned or the message appended to \<open>errors\<close>.
\<close>

definition try_api ::
  "pylib \<Rightarrow> world \<Rightarrow> api_config \<Rightarrow> string \<Rightarrow> string \<Rightarrow> string list \<times> (diag + api_result)" where
  "try_api L w api_config base_currency target_currency =
     (let n = api_name api_config in
      case build_url api_config base_currency target_currency of
        Inl e \<Rightarrow> ([], Inl (on_exception L n e))
      | Inr url \<Rightarrow>
          ([url],
           case requests_get w url (api_timeout api_config) of
             Raises e \<Rightarrow> Inl (on_exception L n e)
           | Response status_code json \<Rightarrow>
               if status_code = 200 then
                 (case json of
                    Inl e \<Rightarrow> Inl (on_exception L n e)
                  | Inr data \<Rightarrow>
                      (case extract_rate api_config data target_currency of
                         Inl e \<Rightarrow> Inl (on_exception L n e)
                       | Inr rate \<Rightarrow>
                           if truthy rate then
                             (case py_get data ''date'' (PStr (strftime_ymd L (now_fetch w))) of
                                Inl e \<Rightarrow> Inl (on_exception L n e)
                              | Inr d \<Rightarrow> Inr \<lparr>r_rate = rate, r_date = d, r_source = n\<rparr>)
                           else Inl (NoRateData n)))
               else Inl (HttpStatus n status_code)))"

text \<open>
  What a run of \<open>get_exchange_rate_from_api\<close> leaves: its return value, the final
  contents of its local list \<open>errors\<close>, and the URLs it requested, in order.
\<close>

record fetched =
  returned :: "api_result option"
  errors :: "diag list"
  requested :: "string list"

fun fetch_loop ::
  "pylib \<Rightarrow> world \<Rightarrow> string \<Rightarrow> string \<Rightarrow> api_config list \<Rightarrow> diag list \<Rightarrow> string list \<Rightarrow> fetched"
  where
  "fetch_loop L w base_currency target_currency [] errs reqs =
     \<lparr>returned = None, errors = errs, requested = reqs\<rparr>"
| "fetch_loop L w base_currency target_currency (api_config # rest) errs reqs =
     (case try_api L w api_config base_currency target_currency of
        (urls, Inr r) \<Rightarrow> \<lparr>returned = Some r, errors = errs, requested = reqs @ urls\<rparr>
      | (urls, Inl d) \<Rightarrow>
          fetch_loop L w base_currency target_currency rest (errs @ [d]) (reqs @ urls))"

definition default_source :: string where
  "default_source = map char_of
     [0xE9, 0xBB, 0x98, 0xE8, 0xAE, 0xA4, 0xE6, 0xB1, 0x87, 0xE7, 0x8E, 0x87, 0x28, 0xE6,
      0xBC, 0x94, 0xE7, 0xA4, 0xBA, 0x29 :: nat]"

definition get_exchange_rate_from_api :: "pylib \<Rightarrow> world \<Rightarrow> string \<Rightarrow> string \<Rightarrow> fetched" where
  "get_exchange_rate_from_api L w base_currency target_currency =
     (let f = fetch_loop L w base_currency target_currency EXCHANGE_RATE_APIS [] [] in
      case returned f of
        Some r \<Rightarrow> f
      | None \<Rightarrow>
          if base_currency = ''USD'' \<and> target_currency = ''CNY'' then
            f\<lparr>returned := Some \<lparr>r_rate = PFloat (fl (699 / 100)),
                                r_date = PStr (strftime_ymd L (now_fetch w)),
                                r_source = default_source\<rparr>\<rparr>
          else f)"

section \<open>Request handlers\<close>

text \<open>
  The query parameters of a request (\<open>request.args\<close>), and what a handler leaves: the
  response (status code and the JSON object passed to \<open>jsonify\<close>, in the order of the
  dict display), or the exception that escaped the handler; the cache afterwards; and
  the URLs requested upstream while handling.
\<close>

record request =
  arg_base :: "string option"
  arg_target :: "string option"
  arg_days :: "string option"
  arg_amount :: "string option"

record response =
  status :: int
  body :: "(string \<times> pyval) list"

record handled =
  reply :: "exc + response"
  cache_after :: cache
  upstream :: "string list"

definition args_get :: "string option \<Rightarrow> string \<Rightarrow> string" where
  "args_get a dflt = (case a of Some v \<Rightarrow> v | None \<Rightarrow> dflt)"

text \<open>\<open>CURRENCY_DATA[code]["name"]\<close>.\<close>

definition currency_name :: "string \<Rightarrow> exc + pyval" where
  "currency_name code =
     (case map_of CURRENCY_DATA code of Some n \<Rightarrow> Inr (PStr n) | None \<Rightarrow> Inl KeyError)"

text \<open>\<open>1 / rate if rate != 0 else 0\<close>.\<close>

definition inverse_rate :: "pyval \<Rightarrow> exc + pyval" where
  "inverse_rate rate = (if py_ne_zero rate then py_one_div rate else Inr (PInt 0))"

definition utf8 :: "nat list \<Rightarrow> string" where
  "utf8 bytes = map char_of bytes"

definition msg_bad_base :: string where
  "msg_bad_base = utf8
     [0xE4, 0xB8, 0x8D, 0xE6, 0x94, 0xAF, 0xE6, 0x8C, 0x81, 0xE7, 0x9A, 0x84, 0xE5, 0x9F,
      0xBA, 0xE5, 0x87, 0x86, 0xE8, 0xB4, 0xA7, 0xE5, 0xB8, 0x81, 0x3A, 0x20]"

definition msg_bad_target :: string where
  "msg_bad_target = utf8
     [0xE4, 0xB8, 0x8D, 0xE6, 0x94, 0xAF, 0xE6, 0x8C, 0x81, 0xE7, 0x9A, 0x84, 0xE7, 0x9B,
      0xAE, 0xE6, 0xA0, 0x87, 0xE8, 0xB4, 0xA7, 0xE5, 0xB8, 0x81, 0x3A, 0x20]"

definition msg_no_api :: string where
  "msg_no_api = utf8
     [0xE6, 0x97, 0xA0, 0xE6, 0xB3, 0x95, 0xE4, 0xBB, 0x8E, 0xE4, 0xBB, 0xBB, 0xE4, 0xBD,
      0x95, 0xE6, 0xB1, 0x87, 0xE7, 0x8E, 0x87, 0x41, 0x50, 0x49, 0xE8, 0x8E, 0xB7, 0xE5,
      0x8F, 0x96, 0xE6, 0x95, 0xB0, 0xE6, 0x8D, 0xAE]"

definition msg_suggestions :: pyval where
  "msg_suggestions = PList
     [PStr (utf8 [0x31, 0x2E, 0x20, 0xE6, 0xA3, 0x80, 0xE6, 0x9F, 0xA5, 0xE7, 0xBD, 0x91,
        0xE7, 0xBB, 0x9C, 0xE8, 0xBF, 0x9E, 0xE6, 0x8E, 0xA5]),
      PStr (utf8 [0x32, 0x2E, 0x20, 0xE7, 0xAD, 0x89, 0xE5, 0xBE, 0x85, 0xE5, 0x87, 0xA0,
        0xE5, 0x88, 0x86, 0xE9, 0x92, 0x9F, 0xE5, 0x90, 0x8E, 0xE9, 0x87, 0x8D, 0xE8, 0xAF,
        0x95]),
      PStr (utf8 [0x33, 0x2E, 0x20, 0xE6, 0x9F, 0x90, 0xE4, 0xBA, 0x9B, 0x41, 0x50, 0x49,
        0xE5, 0x8F, 0xAF, 0xE8, 0x83, 0xBD, 0xE6, 0x9C, 0x89, 0xE8, 0xAF, 0xB7, 0xE6, 0xB1,
        0x82, 0xE9, 0xA2, 0x91, 0xE7, 0x8E, 0x87, 0xE9, 0x99, 0x90, 0xE5, 0x88, 0xB6])]"

definition msg_server_error :: string where
  "msg_server_error = utf8
     [0xE6, 0x9C, 0x8D, 0xE5, 0x8A, 0xA1, 0xE5, 0x99, 0xA8, 0xE9, 0x94, 0x99, 0xE8, 0xAF,
      0xAF, 0x3A, 0x20]"

definition msg_details :: string where
  "msg_details = utf8
     [0xE8, 0xAF, 0xB7, 0xE7, 0xA8, 0x8D, 0xE5, 0x90, 0x8E, 0xE9, 0x87, 0x8D, 0xE8, 0xAF,
      0x95, 0xE6, 0x88, 0x96, 0xE6, 0xA3, 0x80, 0xE6, 0x9F, 0xA5, 0xE7, 0xBD, 0x91, 0xE7,
      0xBB, 0x9C, 0xE8, 0xBF, 0x9E, 0xE6, 0x8E, 0xA5]"

definition time_stamp :: "pylib \<Rightarrow> world \<Rightarrow> pyval" where
  "time_stamp L w = PStr (strftime_ymd_hms L (now_response w))"

text \<open>The two 400 responses that \<open>get_exchange_rate\<close> and \<open>get_historical_data\<close> share.\<close>

definition bad_currency :: "pylib \<Rightarrow> world \<Rightarrow> string \<Rightarrow> string \<Rightarrow> response" where
  "bad_currency L w msg code =
     \<lparr>status = 400,
      body = [(''success'', PBool False), (''error'', PStr (msg @ code)),
              (''timestamp'', time_stamp L w)]\<rparr>"

text \<open>The \<open>result\<close> dict of \<open>get_exchange_rate\<close>, on the cached and on the fetched path.\<close>

definition rate_result ::
  "pylib \<Rightarrow> world \<Rightarrow> string \<Rightarrow> string \<Rightarrow> pyval \<Rightarrow> pyval \<Rightarrow> pyval \<Rightarrow> bool \<Rightarrow> exc + response" where
  "rate_result L w base_currency target_currency rate last_updated source cached =
     ebind (inverse_rate rate) (\<lambda>inv.
     ebind (currency_name base_currency) (\<lambda>base_name.
     ebind (currency_name target_currency) (\<lambda>target_name.
       Inr \<lparr>status = 200,
            body = [(''success'', PBool True),
                    (''base_currency'', PStr base_currency),
                    (''target_currency'', PStr target_currency),
                    (''exchange_rate'', rate),
                    (''inverse_rate'', inv),
                    (''base_name'', base_name),
                    (''target_name'', target_name),
                    (''last_updated'', last_updated),
                    (''timestamp'', time_stamp L w),
                    (''source'', source),
                    (''cached'', PBool cached)]\<rparr>)))"

definition get_exchange_rate :: "pylib \<Rightarrow> world \<Rightarrow> cache \<Rightarrow> request \<Rightarrow> handled" where
  "get_exchange_rate L w exchange_rate_cache req =
     (let base_currency = str_upper L (args_get (arg_base req) ''USD'');
          target_currency = str_upper L (args_get (arg_target req) ''CNY'')
      in
      if \<not> supported base_currency then
        \<lparr>reply = Inr (bad_currency L w msg_bad_base base_currency),
         cache_after = exchange_rate_cache, upstream = []\<rparr>
      else if \<not> supported target_currency then
        \<lparr>reply = Inr (bad_currency L w msg_bad_target target_currency),
         cache_after = exchange_rate_cache, upstream = []\<rparr>
      else
        case get_cached_rate exchange_rate_cache (now_cache_read w) base_currency target_currency
        of ((cached_rate, cached_source), cache1) \<Rightarrow>
          if cached_rate \<noteq> PNone then
            \<lparr>reply = rate_result L w base_currency target_currency cached_rate
                       (PStr (strftime_ymd L (now_response w))) cached_source True,
             cache_after = cache1, upstream = []\<rparr>
          else
            let f = get_exchange_rate_from_api L w base_currency target_currency in
            case returned f of
              None \<Rightarrow>
                \<lparr>reply = Inr \<lparr>status = 503,
                   body = [(''success'', PBool False), (''error'', PStr msg_no_api),
                           (''suggestions'', msg_suggestions),
                           (''timestamp'', time_stamp L w)]\<rparr>,
                 cache_after = cache1, upstream = requested f\<rparr>
            | Some api_result \<Rightarrow>
                let rate = r_rate api_result;
                    cache2 = set_cached_rate cache1 (now_cache_write w) base_currency
                               target_currency rate (r_source api_result)
                in
                \<lparr>reply =
                   (case rate_result L w base_currency target_currency rate
                           (r_date api_result) (PStr (r_source api_result)) False of
                      Inr r \<Rightarrow> Inr r
                    | Inl e \<Rightarrow>
                        Inr \<lparr>status = 500,
                             body = [(''success'', PBool False),
                                     (''error'', PStr (msg_server_error @ str_of_exc L e)),
                                     (''details'', PStr msg_details),
                                     (''timestamp'', time_stamp L w)]\<rparr>),
                 cache_after = cache2, upstream = requested f\<rparr>)"

subsection \<open>Historical series\<close>

text \<open>An element of a history list: a dict with the keys \<open>date\<close>, \<open>rate\<close>, \<open>timestamp\<close>.\<close>

record point =
  h_date :: string
  h_rate :: pyval
  h_timestamp :: string

text \<open>
  A dict is written as an association list and read by the first binding of a key
  (\<open>map_of\<close>). Its items are the keys in the order they first appear, each once, with
  that binding: a dict never holds a key twice. (The responses reach the program as
  parsed values, so this is the dict the JSON parser built.)
\<close>

fun dict_items :: "(string \<times> pyval) list \<Rightarrow> (string \<times> pyval) list" where
  "dict_items [] = []"
| "dict_items (kv # kvs) = kv # dict_items (filter (\<lambda>kv'. fst kv' \<noteq> fst kv) kvs)"

text \<open>\<open>key in v\<close>, \<open>v[key]\<close> and \<open>v.items()\<close> for a string key, and \<open>round(v, 4)\<close>.\<close>

fun py_in :: "string \<Rightarrow> pyval \<Rightarrow> exc + bool" where
  "py_in k (PDict kvs) = Inr (map_of kvs k \<noteq> None)"
| "py_in k (PList xs) = Inr (PStr k \<in> set xs)"
| "py_in k (PStr s) = Inr (sublist k s)"
| "py_in k v = Inl TypeError"

fun py_getitem :: "pyval \<Rightarrow> string \<Rightarrow> exc + pyval" where
  "py_getitem (PDict kvs) k = (case map_of kvs k of Some v \<Rightarrow> Inr v | None \<Rightarrow> Inl KeyError)"
| "py_getitem v k = Inl TypeError"

fun py_items :: "pyval \<Rightarrow> exc + (string \<times> pyval) list" where
  "py_items (PDict kvs) = Inr (dict_items kvs)"
| "py_items v = Inl AttributeError"

text \<open>
  \<open>round(x, 4)\<close> on a float is the float nearest to the decimal with four places
  nearest to \<open>x\<close> (ties to even on the exact value); infinities and NaN round to
  themselves.
\<close>

fun fround4 :: "pyfloat \<Rightarrow> pyfloat" where
  "fround4 (Fin x) = fl (of_int (rne (x * 10000)) / 10000)"
| "fround4 f = f"

fun py_round4 :: "pyval \<Rightarrow> exc + pyval" where
  "py_round4 (PFloat f) = Inr (PFloat (fround4 f))"
| "py_round4 (PInt n) = Inr (PInt n)"
| "py_round4 (PBool b) = Inr (PInt (if b then 1 else 0))"
| "py_round4 v = Inl TypeError"

text \<open>One pass of the loop over \<open>data['rates'].items()\<close>: the point appended, if any.\<close>

definition history_item :: "string \<Rightarrow> string \<times> pyval \<Rightarrow> exc + point option" where
  "history_item target_currency item =
     (case item of (date_str, rates) \<Rightarrow>
        ebind (py_in target_currency rates) (\<lambda>present.
          if present then
            ebind (py_getitem rates target_currency) (\<lambda>v.
            ebind (py_round4 v) (\<lambda>r.
              Inr (Some \<lparr>h_date = date_str, h_rate = r,
                         h_timestamp = date_str @ '' 12:00:00''\<rparr>)))
          else Inr None))"

fun collect_history :: "string \<Rightarrow> (string \<times> pyval) list \<Rightarrow> exc + point list" where
  "collect_history target_currency [] = Inr []"
| "collect_history target_currency (item # rest) =
     (case history_item target_currency item of
        Inl e \<Rightarrow> Inl e
      | Inr p \<Rightarrow>
          (case collect_history target_currency rest of
             Inl e \<Rightarrow> Inl e
           | Inr history \<Rightarrow> Inr (case p of Some pt \<Rightarrow> pt # history | None \<Rightarrow> history)))"

definition historical_url :: "pylib \<Rightarrow> datetime \<Rightarrow> datetime \<Rightarrow> string \<Rightarrow> string \<Rightarrow> string" where
  "historical_url L start_date end_date base_currency target_currency =
     ''https://api.frankfurter.app/'' @ strftime_ymd L start_date @ ''..''
       @ strftime_ymd L end_date @ ''?from='' @ base_currency @ ''&to='' @ target_currency"

text \<open>\<open>response.raise_for_status()\<close> raises HTTPError for a 4xx or 5xx status.\<close>

definition raise_for_status :: "int \<Rightarrow> bool" where
  "raise_for_status status_code = (400 \<le> status_code \<and> status_code < 600)"

text \<open>
  \<open>get_historical_data_from_api\<close>: the value returned (None or a list) and the URLs
  requested. Both \<open>except\<close> clauses return None.
\<close>

definition get_historical_data_from_api ::
  "pylib \<Rightarrow> world \<Rightarrow> string \<Rightarrow> string \<Rightarrow> int \<Rightarrow> point list option \<times> string list" where
  "get_historical_data_from_api L w base_currency target_currency days =
     (let end_date = now_hist_api w in
      case ebind (timedelta_days days) (datetime_sub end_date) of
        Inl e \<Rightarrow> (None, [])
      | Inr start_date \<Rightarrow>
          let url = historical_url L start_date end_date base_currency target_currency in
          (case requests_get w url 15 of
             Raises e \<Rightarrow> None
           | Response status_code json \<Rightarrow>
               if raise_for_status status_code then None
               else
                 (case json of
                    Inl e \<Rightarrow> None
                  | Inr data \<Rightarrow>
                      (case py_in ''rates'' data of
                         Inl e \<Rightarrow> None
                       | Inr present \<Rightarrow>
                           if \<not> present then None
                           else
                             (case ebind (ebind (py_getitem data ''rates'') py_items)
                                     (collect_history target_currency) of
                                Inl e \<Rightarrow> None
                              | Inr history \<Rightarrow> Some (sort_key h_date history)))),
           [url]))"

text \<open>\<open>random.uniform(a, b)\<close> is \<open>a + (b - a) * random()\<close>.\<close>

definition uniform :: "pyfloat \<Rightarrow> pyfloat \<Rightarrow> pyfloat \<Rightarrow> pyfloat" where
  "uniform a b u = fadd a (fmul (fsub b a) u)"

text \<open>\<open>range(days, -1, -1)\<close>.\<close>

definition range_down :: "int \<Rightarrow> int list" where
  "range_down days = rev [0..days]"

text \<open>
  The loop of \<open>generate_historical_data\<close> over the remaining values of \<open>i\<close>, with the
  running \<open>base_rate\<close>; \<open>k\<close> counts the calls of \<open>random.random()\<close> made so far.
\<close>

fun walk ::
  "pylib \<Rightarrow> world \<Rightarrow> datetime \<Rightarrow> int list \<Rightarrow> nat \<Rightarrow> pyfloat \<Rightarrow> exc + point list" where
  "walk L w today [] k base_rate = Inr []"
| "walk L w today (i # rest) k base_rate =
     (case ebind (timedelta_days i) (datetime_sub today) of
        Inl e \<Rightarrow> Inl e
      | Inr date \<Rightarrow>
          let variation = fmul (fsub (random_random w k) (Fin (1 / 2))) (fl (5 / 100));
              rate = fadd base_rate variation
          in
          (case walk L w today rest (Suc k) rate of
             Inl e \<Rightarrow> Inl e
           | Inr history \<Rightarrow>
               Inr (\<lparr>h_date = strftime_ymd L date, h_rate = PFloat (fround4 rate),
                     h_timestamp = strftime_ymd_hms L date\<rparr> # history)))"

definition synthetic_history ::
  "pylib \<Rightarrow> world \<Rightarrow> string \<Rightarrow> string \<Rightarrow> int \<Rightarrow> exc + point list" where
  "synthetic_history L w base_currency target_currency days =
     (if base_currency = ''USD'' \<and> target_currency = ''CNY'' then
        walk L w (now_hist_gen w) (range_down days) 0 (fl (699 / 100))
      else
        walk L w (now_hist_gen w) (range_down days) 1
          (uniform (fl (8 / 10)) (fl (12 / 10)) (random_random w 0)))"

text \<open>
  \<open>generate_historical_data\<close>: the list returned, or the exception raised, and the
  URLs requested.
\<close>

definition generate_historical_data ::
  "pylib \<Rightarrow> world \<Rightarrow> string \<Rightarrow> string \<Rightarrow> int \<Rightarrow> (exc + point list) \<times> string list" where
  "generate_historical_data L w base_currency target_currency days =
     (case get_historical_data_from_api L w base_currency target_currency days of
        (real_history, urls) \<Rightarrow>
          (case real_history of
             Some h \<Rightarrow>
               if h \<noteq> [] then (Inr h, urls)
               else (synthetic_history L w base_currency target_currency days, urls)
           | None \<Rightarrow> (synthetic_history L w base_currency target_currency days, urls)))"

definition msg_hist_failed :: string where
  "msg_hist_failed = utf8
     [0xE8, 0x8E, 0xB7, 0xE5, 0x8F, 0x96, 0xE5, 0x8E, 0x86, 0xE5, 0x8F, 0xB2, 0xE6, 0x95,
      0xB0, 0xE6, 0x8D, 0xAE, 0xE5, 0xA4, 0xB1, 0xE8, 0xB4, 0xA5, 0x3A, 0x20]"

definition point_json :: "point \<Rightarrow> pyval" where
  "point_json p =
     PDict [(''date'', PStr (h_date p)), (''rate'', h_rate p),
            (''timestamp'', PStr (h_timestamp p))]"

definition get_historical_data :: "pylib \<Rightarrow> world \<Rightarrow> cache \<Rightarrow> request \<Rightarrow> handled" where
  "get_historical_data L w exchange_rate_cache req =
     (let base_currency = str_upper L (args_get (arg_base req) ''USD'');
          target_currency = str_upper L (args_get (arg_target req) ''CNY'');
          days = args_get (arg_days req) ''30'';
          days_int = (case int_of_str L days of Some n \<Rightarrow> n | None \<Rightarrow> 30)
      in
      if \<not> supported base_currency then
        \<lparr>reply = Inr (bad_currency L w msg_bad_base base_currency),
         cache_after = exchange_rate_cache, upstream = []\<rparr>
      else if \<not> supported target_currency then
        \<lparr>reply = Inr (bad_currency L w msg_bad_target target_currency),
         cache_after = exchange_rate_cache, upstream = []\<rparr>
      else
        let f = get_exchange_rate_from_api L w base_currency target_currency;
            base_rate =
              (case returned f of
                 None \<Rightarrow>
                   if base_currency = ''USD'' \<and> target_currency = ''CNY''
                   then PFloat (fl (699 / 100)) else PFloat (Fin 1)
               | Some current_rate_data \<Rightarrow> r_rate current_rate_data)
        in
        case generate_historical_data L w base_currency target_currency days_int of
          (history, urls) \<Rightarrow>
            \<lparr>reply =
               (case history of
                  Inr h \<Rightarrow>
                    Inr \<lparr>status = 200,
                         body = [(''success'', PBool True),
                                 (''base_currency'', PStr base_currency),
                                 (''target_currency'', PStr target_currency),
                                 (''current_rate'', base_rate),
                                 (''historical_data'', PList (map point_json h)),
                                 (''days'', PInt days_int),
                                 (''timestamp'', time_stamp L w)]\<rparr>
                | Inl e \<Rightarrow>
                    Inr \<lparr>status = 500,
                         body = [(''success'', PBool False),
                                 (''error'', PStr (msg_hist_failed @ str_of_exc L e)),
                                 (''timestamp'', time_stamp L w)]\<rparr>),
             cache_after = exchange_rate_cache, upstream = requested f @ urls\<rparr>)"

subsection \<open>Amount conversion\<close>

definition msg_amount_not_number :: string where
  "msg_amount_not_number = utf8
     [0xE9, 0x87, 0x91, 0xE9, 0xA2, 0x9D, 0xE5, 0xBF, 0x85, 0xE9, 0xA1, 0xBB, 0xE4, 0xB8,
      0xBA, 0xE6, 0x95, 0xB0, 0xE5, 0xAD, 0x97]"

definition msg_amount_not_positive :: string where
  "msg_amount_not_positive = utf8
     [0xE9, 0x87, 0x91, 0xE9, 0xA2, 0x9D, 0xE5, 0xBF, 0x85, 0xE9, 0xA1, 0xBB, 0xE5, 0xA4,
      0xA7, 0xE4, 0xBA, 0x8E, 0x30]"

definition msg_no_rate :: string where
  "msg_no_rate = utf8
     [0xE6, 0x97, 0xA0, 0xE6, 0xB3, 0x95, 0xE8, 0x8E, 0xB7, 0xE5, 0x8F, 0x96, 0xE6, 0xB1,
      0x87, 0xE7, 0x8E, 0x87, 0xE6, 0x95, 0xB0, 0xE6, 0x8D, 0xAE]"

definition msg_convert_failed :: string where
  "msg_convert_failed = utf8
     [0xE8, 0xBD, 0xAC, 0xE6, 0x8D, 0xA2, 0xE5, 0xA4, 0xB1, 0xE8, 0xB4, 0xA5, 0x3A, 0x20]"

definition error_response :: "pylib \<Rightarrow> world \<Rightarrow> int \<Rightarrow> string \<Rightarrow> response" where
  "error_response L w code msg =
     \<lparr>status = code,
      body = [(''success'', PBool False), (''error'', PStr msg),
              (''timestamp'', time_stamp L w)]\<rparr>"

text \<open>\<open>float(request.args.get('amount', 1.0))\<close>.\<close>

definition parse_amount :: "pylib \<Rightarrow> string option \<Rightarrow> pyfloat option" where
  "parse_amount L a = (case a of None \<Rightarrow> Some (Fin 1) | Some s \<Rightarrow> float_of_str L s)"

definition convert_result ::
  "pylib \<Rightarrow> world \<Rightarrow> string \<Rightarrow> string \<Rightarrow> pyfloat \<Rightarrow> api_result \<Rightarrow> exc + response" where
  "convert_result L w base_currency target_currency amount api_result =
     (let rate = r_rate api_result in
      ebind (py_float_mul amount rate) (\<lambda>converted_amount.
      ebind (currency_name base_currency) (\<lambda>base_name.
      ebind (currency_name target_currency) (\<lambda>target_name.
        Inr \<lparr>status = 200,
             body = [(''success'', PBool True),
                     (''amount'', PFloat amount),
                     (''converted_amount'', converted_amount),
                     (''base_currency'', PStr base_currency),
                     (''target_currency'', PStr target_currency),
                     (''exchange_rate'', rate),
                     (''base_name'', base_name),
                     (''target_name'', target_name),
                     (''formatted'',
                        PStr (format_2f L amount @ '' '' @ base_currency @ '' = ''
                          @ (case converted_amount of PFloat c \<Rightarrow> format_2f L c | _ \<Rightarrow> [])
                          @ '' '' @ target_currency)),
                     (''source'', PStr (r_source api_result)),
                     (''timestamp'', time_stamp L w)]\<rparr>))))"

definition convert_amount :: "pylib \<Rightarrow> world \<Rightarrow> cache \<Rightarrow> request \<Rightarrow> handled" where
  "convert_amount L w exchange_rate_cache req =
     (let base_currency = str_upper L (args_get (arg_base req) ''USD'');
          target_currency = str_upper L (args_get (arg_target req) ''CNY'')
      in
      case parse_amount L (arg_amount req) of
        None \<Rightarrow>
          \<lparr>reply = Inr (error_response L w 400 msg_amount_not_number),
           cache_after = exchange_rate_cache, upstream = []\<rparr>
      | Some amount \<Rightarrow>
          if fle amount (Fin 0) then
            \<lparr>reply = Inr (error_response L w 400 msg_amount_not_positive),
             cache_after = exchange_rate_cache, upstream = []\<rparr>
          else
            let f = get_exchange_rate_from_api L w base_currency target_currency in
            \<lparr>reply =
               (case returned f of
                  None \<Rightarrow> Inr (error_response L w 503 msg_no_rate)
                | Some api_result \<Rightarrow>
                    (case convert_result L w base_currency target_currency amount api_result of
                       Inr r \<Rightarrow> Inr r
                     | Inl e \<Rightarrow>
                         Inr (error_response L w 500 (msg_convert_failed @ str_of_exc L e)))),
             cache_after = exchange_rate_cache, upstream = requested f\<rparr>)"

section \<open>Vocabulary of the statements\<close>

text \<open>The URL each configured provider is asked, as the templates expand.\<close>

definition provider_url :: "api_config \<Rightarrow> string \<Rightarrow> string \<Rightarrow> string" where
  "provider_url api_config b t =
     (if api_name api_config = ''ExchangeRate-API'' then
        ''https://api.exchangerate-api.com/v4/latest/'' @ b
      else if api_name api_config = ''Frankfurter'' then
        ''https://api.frankfurter.app/latest?from='' @ b @ ''&to='' @ t
      else ''https://open.er-api.com/v6/latest/'' @ b)"

text \<open>
  What a provider offers for a pair, read off the world and not off the program: the
  rate and the date, when the provider answers its URL with status 200 and a JSON
  object whose \<open>rates\<close> object holds a truthy value for the target; the date is the
  object's \<open>date\<close> or, without one, the current date. Every other behaviour of the
  provider (an exception, another status, a body that is not JSON or not of this shape,
  no rate, a falsy rate) offers nothing.
\<close>

definition offered ::
  "pylib \<Rightarrow> world \<Rightarrow> api_config \<Rightarrow> string \<Rightarrow> string \<Rightarrow> (pyval \<times> pyval) option" where
  "offered L w api_config b t =
     (case requests_get w (provider_url api_config b t) (api_timeout api_config) of
        Response code (Inr (PDict kvs)) \<Rightarrow>
          if code = 200 then
            (case map_of kvs ''rates'' of
               Some (PDict rs) \<Rightarrow>
                 (case map_of rs t of
                    Some rate \<Rightarrow>
                      if truthy rate then
                        Some (rate, case map_of kvs ''date'' of Some d \<Rightarrow> d
                                    | None \<Rightarrow> PStr (strftime_ymd L (now_fetch w)))
                      else None
                  | None \<Rightarrow> None)
             | _ \<Rightarrow> None)
          else None
      | _ \<Rightarrow> None)"

text \<open>The provider a message in \<open>errors\<close> names.\<close>

fun diag_provider :: "diag \<Rightarrow> string" where
  "diag_provider (NoRateData n) = n"
| "diag_provider (HttpStatus n c) = n"
| "diag_provider (TimedOut n) = n"
| "diag_provider (ConnectionFailed n) = n"
| "diag_provider (RequestFailed n m) = n"
| "diag_provider (BadFormat n) = n"
| "diag_provider (UnknownError n m) = n"

subsection \<open>A library and worlds for examples\<close>

text \<open>
  A plain instance of the library functions, for evaluating the model on examples:
  upper-casing of ASCII letters, integers in decimal, a date printed as its day number;
  \<open>float\<close> reads \<open>nan\<close> and the integers in decimal.
\<close>

definition ascii_upper :: "string \<Rightarrow> string" where
  "ascii_upper s =
     map (\<lambda>c. let n = of_char c :: nat in if 97 \<le> n \<and> n \<le> 122 then char_of (n - 32) else c) s"

fun decimal :: "nat \<Rightarrow> string" where
  "decimal n =
     (if n < 10 then [char_of (48 + n)] else decimal (n div 10) @ [char_of (48 + n mod 10)])"

declare decimal.simps [simp del]

definition parse_decimal :: "string \<Rightarrow> int option" where
  "parse_decimal s =
     (if s \<noteq> [] \<and> list_all (\<lambda>c. 48 \<le> (of_char c :: nat) \<and> (of_char c :: nat) \<le> 57) s
      then Some (foldl (\<lambda>a c. 10 * a + (of_char c - 48)) 0 s) else None)"

definition example_lib :: pylib where
  "example_lib =
     \<lparr>strftime_ymd = (\<lambda>t. ''day '' @ decimal (nat (t div 86400000000))),
      strftime_ymd_hms = (\<lambda>t. ''day '' @ decimal (nat (t div 86400000000)) @ '' second ''
                              @ decimal (nat (t div 1000000 mod 86400))),
      str_upper = ascii_upper,
      str_of_exc = (\<lambda>e. ''exception''),
      int_of_str = parse_decimal,
      float_of_str = (\<lambda>s. if s = ''nan'' then Some NaN
                            else map_option (\<lambda>n. Fin (of_int n)) (parse_decimal s)),
      format_2f = (\<lambda>f. case f of Fin x \<Rightarrow> decimal (nat \<lfloor>x\<rfloor>) | _ \<Rightarrow> ''nan'')\<rparr>"

text \<open>
  A world given by a table from URLs to what the request does (a URL outside the table
  cannot be connected to) and by one clock reading \<open>t\<close> for the whole request.
\<close>

definition example_world :: "(string \<times> http_result) list \<Rightarrow> datetime \<Rightarrow> world" where
  "example_world table t =
     \<lparr>requests_get = (\<lambda>url tmo. case map_of table url of Some r \<Rightarrow> r
                                 | None \<Rightarrow> Raises ConnectionError),
      now_cache_read = t, now_cache_write = t, now_fetch = t, now_hist_api = t,
      now_hist_gen = t, now_response = t,
      random_random = (\<lambda>k. Fin (1 / 4))\<rparr>"

text \<open>Noon of 2026-11-03, day 739922 after \<open>datetime.min\<close>.\<close>

definition noon :: datetime where
  "noon = 739922 * 86400000000 + 43200000000"

definition json_rates :: "string \<Rightarrow> pyval \<Rightarrow> http_result" where
  "json_rates t rate = Response 200 (Inr (PDict [(''rates'', PDict [(t, rate)])]))"


text \<open>A world where no upstream server can be reached, and a request in lower case.\<close>

definition all_down :: world where
  "all_down = example_world [] noon"

definition lower_eur_usd :: request where
  "lower_eur_usd = \<lparr>arg_base = Some ''eur'', arg_target = Some ''usd'', arg_days = None,
                     arg_amount = None\<rparr>"

text \<open>The pair a request names: the parameters in upper case, USD and CNY by default.\<close>

definition base_of :: "pylib \<Rightarrow> request \<Rightarrow> string" where
  "base_of L req = str_upper L (args_get (arg_base req) ''USD'')"

definition target_of :: "pylib \<Rightarrow> request \<Rightarrow> string" where
  "target_of L req = str_upper L (args_get (arg_target req) ''CNY'')"

text \<open>A world where the first provider answers 7.125 for USD to CNY, and a request without parameters.\<close>

definition first_answers :: world where
  "first_answers = example_world
     [(''https://api.exchangerate-api.com/v4/latest/USD'',
         json_rates ''CNY'' (PFloat (Fin (57 / 8))))] noon"

definition no_args :: request where
  "no_args = \<lparr>arg_base = None, arg_target = None, arg_days = None, arg_amount = None\<rparr>"

text \<open>A cache that holds the rate 0.0 for USD to CNY, written at noon.\<close>

definition zero_cached :: cache where
  "zero_cached = [cache_key ''USD'' ''CNY'' \<mapsto>
      \<lparr>c_rate = PFloat (Fin 0), c_source = ''Frankfurter'', c_timestamp = noon\<rparr>]"

text \<open>A positive float.\<close>

fun fpositive :: "pyfloat \<Rightarrow> bool" where
  "fpositive (Fin x) = (0 < x)"
| "fpositive PosInf = True"
| "fpositive NegInf = False"
| "fpositive NaN = False"

text \<open>A conversion request with all three parameters.\<close>

definition amount_request :: "string \<Rightarrow> string \<Rightarrow> string \<Rightarrow> request" where
  "amount_request b t a =
     \<lparr>arg_base = Some b, arg_target = Some t, arg_days = None, arg_amount = Some a\<rparr>"

section \<open>Properties of the binary64 rounding\<close>

text \<open>
  Rounding to the nearest integer is monotone and odd, \<open>ilog2\<close> is the binary exponent,
  and so rounding to binary64 is monotone: a value between two others rounds to a float
  between their roundings.
\<close>

lemma rne_bounds: "\<bar>of_int (rne q) - q\<bar> \<le> 1 / 2"
proof -
  have "of_int \<lfloor>q\<rfloor> \<le> q" "q < of_int \<lfloor>q\<rfloor> + 1" by linarith+
  then show ?thesis
    by (auto simp: rne_def Let_def abs_le_iff)
qed

lemma rne_of_int [simp]: "rne (of_int n) = n"
  by (simp add: rne_def)

lemma rne_range: "\<lfloor>q\<rfloor> \<le> rne q" "rne q \<le> \<lfloor>q\<rfloor> + 1"
  by (auto simp: rne_def Let_def)

lemma rne_mono:
  assumes "a \<le> b"
  shows "rne a \<le> rne b"
proof (cases "\<lfloor>a\<rfloor> = \<lfloor>b\<rfloor>")
  case True
  then have "a - of_int \<lfloor>a\<rfloor> \<le> b - of_int \<lfloor>b\<rfloor>" using assms by simp
  then show ?thesis using True
    by (auto simp: rne_def Let_def)
next
  case False
  then have "\<lfloor>a\<rfloor> < \<lfloor>b\<rfloor>" using assms floor_mono[OF assms] by linarith
  then have "rne a \<le> \<lfloor>b\<rfloor>" using rne_range(2)[of a] by linarith
  then show ?thesis using rne_range(1)[of b] by linarith
qed

lemma rne_minus: "rne (- q) = - rne q"
proof (cases "q = of_int \<lfloor>q\<rfloor>")
  case True
  then obtain n where "q = of_int n" ..
  then have "- q = of_int (- n)" by simp
  then show ?thesis using \<open>q = of_int n\<close> rne_of_int by metis
next
  case False
  then have fl: "\<lfloor>- q\<rfloor> = - \<lfloor>q\<rfloor> - 1"
    by (simp add: floor_minus ceiling_altdef)
  have "of_int \<lfloor>q\<rfloor> \<le> q" "q < of_int \<lfloor>q\<rfloor> + 1" by linarith+
  then show ?thesis using False
    unfolding rne_def Let_def fl
    by (auto simp: field_simps)
qed


lemma bitlen_rat_bounds:
  assumes "0 < (x::int)"
  shows "power_int 2 (bitlen x - 1) \<le> (of_int x :: rat)" "(of_int x :: rat) < power_int 2 (bitlen x)"
proof -
  have b1: "1 \<le> bitlen x" using assms bitlen_eq_zero_iff[of x] bitlen_nonneg[of x] by linarith
  have "(2::int) ^ nat (bitlen x - 1) \<le> x" "x < 2 ^ nat (bitlen x)"
    using bitlen_bounds[OF assms] by auto
  then have "(of_int ((2::int) ^ nat (bitlen x - 1)) :: rat) \<le> of_int x"
    "(of_int x :: rat) < of_int (2 ^ nat (bitlen x))"
    by (simp_all only: of_int_le_iff of_int_less_iff)
  then show "power_int 2 (bitlen x - 1) \<le> (of_int x :: rat)"
    "(of_int x :: rat) < power_int 2 (bitlen x)"
    using b1 by (simp_all add: power_int_def)
qed

lemma ilog2_bounds:
  assumes "0 < q"
  shows "power_int 2 (ilog2 q) \<le> q" "q < power_int 2 (ilog2 q + 1)"
proof -
  obtain n d where qd: "quotient_of q = (n, d)" by (cases "quotient_of q")
  have d: "0 < d" using quotient_of_denom_pos[OF qd] .
  have q: "q = of_int n / of_int d" using quotient_of_div[OF qd] .
  have n: "0 < n"
    using assms d unfolding q by (simp add: zero_less_divide_iff)
  let ?e = "bitlen n - bitlen d"
  have dr: "(0::rat) < of_int d" using d by simp
  have p0: "(0::rat) < power_int 2 k" for k :: int by (simp add: zero_less_power_int)
  have up: "q < power_int 2 (?e + 1)"
  proof -
    have "q < power_int 2 (bitlen n) / of_int d"
      unfolding q using bitlen_rat_bounds(2)[OF n] dr by (simp add: divide_strict_right_mono)
    also have "\<dots> \<le> power_int 2 (bitlen n) / power_int 2 (bitlen d - 1)"
      using bitlen_rat_bounds(1)[OF d] p0[of "bitlen n"] p0[of "bitlen d - 1"] dr
      by (intro divide_left_mono) (simp_all add: mult_pos_pos less_imp_le)
    also have "\<dots> = power_int 2 (bitlen n - (bitlen d - 1))"
      by (rule power_int_diff[symmetric]) simp
    also have "bitlen n - (bitlen d - 1) = ?e + 1"
      by simp
    finally show ?thesis .
  qed
  have lo: "power_int 2 (?e - 1) < q"
  proof -
    have "?e - 1 = (bitlen n - 1) - bitlen d"
      by simp
    also have "power_int (2::rat) \<dots> = power_int 2 (bitlen n - 1) / power_int 2 (bitlen d)"
      by (rule power_int_diff) simp
    also have "\<dots> < power_int 2 (bitlen n - 1) / of_int d"
      using bitlen_rat_bounds(2)[OF d] p0[of "bitlen n - 1"] p0[of "bitlen d"] dr
      by (intro divide_strict_left_mono) (simp_all add: mult_pos_pos)
    also have "\<dots> \<le> q"
      unfolding q using bitlen_rat_bounds(1)[OF n] dr by (simp add: divide_right_mono)
    finally show ?thesis .
  qed
  show "power_int 2 (ilog2 q) \<le> q" "q < power_int 2 (ilog2 q + 1)"
    using up lo by (auto simp: ilog2_def qd Let_def)
qed

lemma ilog2_mono:
  assumes "0 < a" "a \<le> b"
  shows "ilog2 a \<le> ilog2 b"
proof (rule ccontr)
  assume "\<not> ?thesis"
  then have "ilog2 b + 1 \<le> ilog2 a" by simp
  then have "power_int (2::rat) (ilog2 b + 1) \<le> power_int 2 (ilog2 a)"
    by (intro power_int_increasing) auto
  then show False
    using ilog2_bounds(1)[OF assms(1)] ilog2_bounds(2)[of b] assms by linarith
qed


lemma fulp_pos: "0 < fulp q"
  by (simp add: fulp_def zero_less_power_int)

lemma fround_0 [simp]: "fround 0 = 0"
  by (simp add: fround_def rne_def)

lemma fexp_minus [simp]: "fexp (- q) = fexp q"
  by (simp add: fexp_def)

lemma fulp_minus [simp]: "fulp (- q) = fulp q"
  by (simp add: fulp_def)

lemma fround_minus: "fround (- q) = - fround q"
  by (simp add: fround_def rne_minus)

lemma pow53: "power_int (2::rat) (e + 1) / power_int 2 (e - 52) = 2 ^ 53"
proof -
  have "power_int (2::rat) (e + 1) / power_int 2 (e - 52) = power_int 2 ((e + 1) - (e - 52))"
    by (rule power_int_diff[symmetric]) simp
  also have "(e + 1) - (e - 52) = 53" by simp
  finally show ?thesis by simp
qed

lemma pow52: "power_int (2::rat) e / power_int 2 (e - 52) = 2 ^ 52"
proof -
  have "power_int (2::rat) e / power_int 2 (e - 52) = power_int 2 (e - (e - 52))"
    by (rule power_int_diff[symmetric]) simp
  also have "e - (e - 52) = 52" by simp
  finally show ?thesis by simp
qed

lemma fround_pos_bounds:
  assumes "0 < q"
  shows "0 \<le> fround q" "fround q \<le> power_int 2 (fexp q + 1)"
    and "- 1022 \<le> ilog2 q \<Longrightarrow> power_int 2 (fexp q) \<le> fround q"
proof -
  let ?u = "fulp q"
  have u: "0 < ?u" by (rule fulp_pos)
  have "rne 0 \<le> rne (q / ?u)"
    using assms u by (intro rne_mono) simp
  then have "0 \<le> rne (q / ?u)" by (simp add: rne_def)
  then show "0 \<le> fround q"
    using u by (simp add: fround_def)
  have le: "ilog2 q + 1 \<le> fexp q + 1" using assms by (simp add: fexp_def)
  have "q < power_int 2 (ilog2 q + 1)" using ilog2_bounds(2)[OF assms] .
  also have "\<dots> \<le> power_int 2 (fexp q + 1)"
    using le by (intro power_int_increasing) auto
  finally have "q / ?u \<le> power_int 2 (fexp q + 1) / ?u"
    using u by (simp add: divide_right_mono)
  also have "\<dots> = of_int (2 ^ 53)"
    by (simp add: fulp_def pow53)
  finally have "rne (q / ?u) \<le> rne (of_int (2 ^ 53))"
    by (rule rne_mono)
  then have "(of_int (rne (q / ?u)) :: rat) \<le> of_int (2 ^ 53)"
    unfolding rne_of_int by (simp only: of_int_le_iff)
  then have "fround q \<le> of_int (2 ^ 53) * ?u"
    using u by (simp add: fround_def)
  also have "\<dots> = power_int 2 (fexp q + 1)"
    using pow53[of "fexp q"] by (simp add: fulp_def field_simps)
  finally show "fround q \<le> power_int 2 (fexp q + 1)" .
  show "power_int 2 (fexp q) \<le> fround q" if "- 1022 \<le> ilog2 q"
  proof -
    have e: "fexp q = ilog2 q" using that assms by (simp add: fexp_def)
    have "power_int 2 (fexp q) \<le> q" using ilog2_bounds(1)[OF assms] e by simp
    then have "power_int 2 (fexp q) / ?u \<le> q / ?u"
      using u by (simp add: divide_right_mono)
    then have "of_int (2 ^ 52) \<le> q / ?u"
      by (simp add: fulp_def pow52)
    then have "rne (of_int (2 ^ 52)) \<le> rne (q / ?u)"
      by (rule rne_mono)
    then have "(of_int (2 ^ 52) :: rat) \<le> of_int (rne (q / ?u))"
      unfolding rne_of_int by (simp only: of_int_le_iff)
    then have "of_int (2 ^ 52) * ?u \<le> fround q"
      using u by (simp add: fround_def)
    moreover have "of_int (2 ^ 52) * ?u = power_int 2 (fexp q)"
      using pow52[of "fexp q"] by (simp add: fulp_def field_simps)
    ultimately show ?thesis by simp
  qed
qed

lemma fround_mono_pos:
  assumes "0 < a" "a \<le> b"
  shows "fround a \<le> fround b"
proof -
  have b: "0 < b" using assms by simp
  have ee: "fexp a \<le> fexp b"
    using ilog2_mono[OF assms] assms by (simp add: fexp_def)
  show ?thesis
  proof (cases "fexp a = fexp b")
    case True
    then have u: "fulp a = fulp b" by (simp add: fulp_def)
    have "a / fulp b \<le> b / fulp b"
      using assms(2) fulp_pos[of b] by (simp add: divide_right_mono)
    then have "rne (a / fulp b) \<le> rne (b / fulp b)" by (rule rne_mono)
    then have "(of_int (rne (a / fulp b)) :: rat) \<le> of_int (rne (b / fulp b))"
      by (simp only: of_int_le_iff)
    then show ?thesis
      using fulp_pos[of b] by (simp add: fround_def u)
  next
    case False
    then have lt: "fexp a + 1 \<le> fexp b" using ee by simp
    have "- 1022 \<le> fexp a" by (simp add: fexp_def)
    then have "- 1022 \<le> ilog2 b" using lt b by (auto simp: fexp_def max_def split: if_splits)
    then have "power_int 2 (fexp b) \<le> fround b" using fround_pos_bounds(3)[OF b] by simp
    moreover have "power_int (2::rat) (fexp a + 1) \<le> power_int 2 (fexp b)"
      using lt by (intro power_int_increasing) auto
    ultimately show ?thesis
      using fround_pos_bounds(2)[OF assms(1)] by linarith
  qed
qed

lemma fround_mono:
  assumes "a \<le> b"
  shows "fround a \<le> fround b"
proof -
  consider "0 < a" | "a = 0" | "a < 0" "0 \<le> b" | "b < 0" using assms by linarith
  then show ?thesis
  proof cases
    case 1
    then show ?thesis using fround_mono_pos assms by simp
  next
    case 2
    then show ?thesis
      using fround_pos_bounds(1)[of b] assms by (cases "b = 0") auto
  next
    case 3
    have "fround a \<le> 0"
      using fround_pos_bounds(1)[of "- a"] 3(1) by (simp add: fround_minus)
    moreover have "0 \<le> fround b"
      using fround_pos_bounds(1)[of b] 3(2) by (cases "b = 0") auto
    ultimately show ?thesis by simp
  next
    case 4
    then have "fround (- b) \<le> fround (- a)"
      using assms by (intro fround_mono_pos) auto
    then show ?thesis by (simp add: fround_minus)
  qed
qed

lemma fl_Fin_iff: "fl q = Fin x \<longleftrightarrow> x = fround q \<and> \<bar>fround q\<bar> < 2 ^ 1024"
  by (auto simp: fl_def)

lemma fl_between:
  assumes "lo \<le> q" "q \<le> hi" "fl lo = Fin l" "fl hi = Fin h"
  shows "\<exists>x. fl q = Fin x \<and> l \<le> x \<and> x \<le> h"
proof -
  have l: "l = fround lo" "\<bar>fround lo\<bar> < 2 ^ 1024"
    and h: "h = fround hi" "\<bar>fround hi\<bar> < 2 ^ 1024"
    using assms(3,4) by (simp_all add: fl_Fin_iff)
  have "fround lo \<le> fround q" "fround q \<le> fround hi"
    using assms(1,2) by (simp_all add: fround_mono)
  then show ?thesis
    using l h by (auto simp: fl_Fin_iff)
qed

text \<open>
  Evaluating \<open>fl\<close>: a positive \<open>q\<close> with binary exponent \<open>e\<close> in the normal range rounds
  to \<open>m * 2\<^sup>e\<^sup>-\<^sup>5\<^sup>2\<close> for the integer \<open>m\<close> within a half of \<open>q / 2\<^sup>e\<^sup>-\<^sup>5\<^sup>2\<close>. The literals
  of the program follow: 6.99, 0.5, 0.05, 0.8 and 1.2 as binary64 numbers.
\<close>

lemma ilog2_unique:
  assumes "power_int 2 e \<le> q" "q < power_int 2 (e + 1)"
  shows "ilog2 q = e"
proof -
  have q: "0 < q"
    using assms(1) zero_less_power_int[of "2::rat" e] by linarith
  note b = ilog2_bounds[OF q]
  have "e < ilog2 q + 1"
  proof (rule ccontr)
    assume "\<not> ?thesis"
    then have "power_int (2::rat) (ilog2 q + 1) \<le> power_int 2 e"
      by (intro power_int_increasing) auto
    then show False using b(2) assms(1) by linarith
  qed
  moreover have "ilog2 q < e + 1"
  proof (rule ccontr)
    assume "\<not> ?thesis"
    then have "power_int (2::rat) (e + 1) \<le> power_int 2 (ilog2 q)"
      by (intro power_int_increasing) auto
    then show False using b(1) assms(2) by linarith
  qed
  ultimately show ?thesis by simp
qed

lemma rne_eqI:
  assumes "\<bar>q - of_int m\<bar> < 1 / 2"
  shows "rne q = m"
proof -
  have "of_int \<lfloor>q\<rfloor> \<le> q" "q < of_int \<lfloor>q\<rfloor> + 1" by linarith+
  moreover have "q - 1 / 2 < of_int m" "of_int m < q + 1 / 2"
    using assms by linarith+
  ultimately have "of_int \<lfloor>q\<rfloor> - 1 < (of_int m :: rat)" "(of_int m :: rat) < of_int \<lfloor>q\<rfloor> + 2"
    by linarith+
  then have "\<lfloor>q\<rfloor> - 1 < m" "m < \<lfloor>q\<rfloor> + 2"
    by (metis of_int_1 of_int_diff of_int_less_iff, metis of_int_add of_int_less_iff of_int_numeral)
  then consider "m = \<lfloor>q\<rfloor>" | "m = \<lfloor>q\<rfloor> + 1" by linarith
  then show ?thesis
  proof cases
    case 1
    then have "(of_int m :: rat) = of_int \<lfloor>q\<rfloor>" by simp
    then have "q - of_int \<lfloor>q\<rfloor> < 1 / 2" using assms by linarith
    then show ?thesis using 1 by (simp add: rne_def Let_def)
  next
    case 2
    then have "(of_int m :: rat) = of_int \<lfloor>q\<rfloor> + 1" by simp
    then have "1 / 2 < q - of_int \<lfloor>q\<rfloor>" using assms by linarith
    then show ?thesis using 2 by (simp add: rne_def Let_def)
  qed
qed

lemma fl_eval:
  assumes "power_int 2 e \<le> q" "q < power_int 2 (e + 1)" "- 1022 \<le> e" "e \<le> 1022"
    and "\<bar>q / power_int 2 (e - 52) - of_int m\<bar> < 1 / 2"
  shows "fl q = Fin (of_int m * power_int 2 (e - 52))"
proof -
  have q: "0 < q"
    using assms(1) zero_less_power_int[of "2::rat" e] by linarith
  have e: "fexp q = e"
    using ilog2_unique[OF assms(1,2)] assms(3) q by (simp add: fexp_def)
  have v: "fround q = of_int m * power_int 2 (e - 52)"
    by (simp add: fround_def fulp_def e rne_eqI[OF assms(5)])
  have "fround q \<le> power_int 2 (e + 1)"
    using fround_pos_bounds(2)[OF q] e by simp
  also have "\<dots> \<le> power_int 2 1023"
    using assms(4) by (intro power_int_increasing) auto
  also have "\<dots> < 2 ^ 1024"
    by simp
  finally have "\<bar>fround q\<bar> < 2 ^ 1024"
    using fround_pos_bounds(1)[OF q] by simp
  then show ?thesis
    using v by (simp add: fl_Fin_iff)
qed

lemma fl_minus: "fl (- q) = fneg (fl q)"
  by (auto simp: fl_def fround_minus)

lemma fl_699: "fl (699 / 100) = Fin (3935020174414971 / 562949953421312)"
  using fl_eval[of 2 "699 / 100" 7870040348829942] by simp

lemma fl_half: "fl (1 / 2) = Fin (1 / 2)"
  using fl_eval[of "- 1" "1 / 2" 4503599627370496] by simp

lemma fl_005: "fl (5 / 100) = Fin (3602879701896397 / 72057594037927936)"
  using fl_eval[of "- 5" "5 / 100" 7205759403792794] by simp

lemma fl_0025: "fl (25 / 1000) = Fin (3602879701896397 / 144115188075855872)"
  using fl_eval[of "- 6" "25 / 1000" 7205759403792794] by simp

lemma fl_0025_exact:
  "fl (3602879701896397 / 144115188075855872) = Fin (3602879701896397 / 144115188075855872)"
  using fl_eval[of "- 6" "3602879701896397 / 144115188075855872" 7205759403792794] by simp

lemma fl_08: "fl (8 / 10) = Fin (3602879701896397 / 4503599627370496)"
  using fl_eval[of "- 1" "8 / 10" 7205759403792794] by simp

lemma fl_12: "fl (12 / 10) = Fin (5404319552844595 / 4503599627370496)"
  using fl_eval[of 0 "12 / 10" 5404319552844595] by simp

lemma fl_gap:
  "fl (5404319552844595 / 4503599627370496 - 3602879701896397 / 4503599627370496)
     = Fin (900719925474099 / 2251799813685248)"
  using fl_eval[of "- 2"
      "5404319552844595 / 4503599627370496 - 3602879701896397 / 4503599627370496"
      7205759403792792] by simp

lemma fl_gap_exact:
  "fl (900719925474099 / 2251799813685248) = Fin (900719925474099 / 2251799813685248)"
  using fl_eval[of "- 2" "900719925474099 / 2251799813685248" 7205759403792792] by simp

lemma fl_08_exact:
  "fl (3602879701896397 / 4503599627370496) = Fin (3602879701896397 / 4503599627370496)"
  using fl_eval[of "- 1" "3602879701896397 / 4503599627370496" 7205759403792794] by simp

lemma fl_08_plus_gap:
  "fl (3602879701896397 / 4503599627370496 + 900719925474099 / 2251799813685248)
     = Fin (5404319552844595 / 4503599627370496)"
  using fl_eval[of 0
      "3602879701896397 / 4503599627370496 + 900719925474099 / 2251799813685248"
      5404319552844595] by simp

lemma hundred_times_699: "fmul (Fin 100) (fl (699 / 100)) = Fin 699"
  unfolding fl_699
  using fl_eval[of 9 "100 * (3935020174414971 / 562949953421312)" 6148469022523392]
  by simp

text \<open>
  The synthetic series in the words of its description: the perturbation of step \<open>k\<close>,
  \<open>(random() - 0.5) * 0.05\<close>; the running rates, each the previous one plus the
  perturbation; the seed; and the number of days a historical request asks for.
\<close>

definition delta :: "world \<Rightarrow> nat \<Rightarrow> pyfloat" where
  "delta w k = fmul (fsub (random_random w k) (Fin (1 / 2))) (fl (5 / 100))"

fun running :: "world \<Rightarrow> nat \<Rightarrow> pyfloat \<Rightarrow> nat \<Rightarrow> pyfloat list" where
  "running w k r 0 = []"
| "running w k r (Suc n) = fadd r (delta w k) # running w (Suc k) (fadd r (delta w k)) n"

definition seed :: "world \<Rightarrow> string \<Rightarrow> string \<Rightarrow> pyfloat" where
  "seed w b t =
     (if b = ''USD'' \<and> t = ''CNY'' then fl (699 / 100)
      else uniform (fl (8 / 10)) (fl (12 / 10)) (random_random w 0))"

definition days_of :: "pylib \<Rightarrow> request \<Rightarrow> int" where
  "days_of L req =
     (case int_of_str L (args_get (arg_days req) ''30'') of Some n \<Rightarrow> n | None \<Rightarrow> 30)"

text \<open>
  A historical request with all three parameters, and a world where the range endpoint
  answers the 7-day request of noon with the rates of a single date.
\<close>

definition days_request :: "string \<Rightarrow> string \<Rightarrow> string \<Rightarrow> request" where
  "days_request b t d =
     \<lparr>arg_base = Some b, arg_target = Some t, arg_days = Some d, arg_amount = None\<rparr>"

definition one_point :: world where
  "one_point = example_world
     [(historical_url example_lib (noon - 7 * 86400000000) noon ''USD'' ''CNY'',
       Response 200 (Inr (PDict [(''rates'',
         PDict [(''2026-11-02'', PDict [(''CNY'', PFloat (Fin (57 / 8)))])])])))] noon"

text \<open>
  What the range endpoint answers a historical request with: the items of the \<open>rates\<close>
  object of its JSON response, when the request succeeds and the response holds one whose
  value is an object; and whether an item holds a rate for the target currency.
\<close>

fun entries :: "pyval \<Rightarrow> (string \<times> pyval) list option" where
  "entries (PDict kvs) = Some (dict_items kvs)"
| "entries v = None"

fun rates_of :: "pyval \<Rightarrow> (string \<times> pyval) list option" where
  "rates_of (PDict kvs) = (case map_of kvs ''rates'' of Some rates \<Rightarrow> entries rates | None \<Rightarrow> None)"
| "rates_of v = None"

definition range_rates ::
  "pylib \<Rightarrow> world \<Rightarrow> string \<Rightarrow> string \<Rightarrow> int \<Rightarrow> (string \<times> pyval) list option" where
  "range_rates L w b t days =
     (case ebind (timedelta_days days) (datetime_sub (now_hist_api w)) of
        Inl e \<Rightarrow> None
      | Inr start_date \<Rightarrow>
          (case requests_get w (historical_url L start_date (now_hist_api w) b t) 15 of
             Raises e \<Rightarrow> None
           | Response status_code json \<Rightarrow>
               if 400 \<le> status_code \<and> status_code < 600 then None
               else (case json of Inl e \<Rightarrow> None | Inr data \<Rightarrow> rates_of data)))"

definition has_rate :: "string \<Rightarrow> string \<times> pyval \<Rightarrow> bool" where
  "has_rate t item = (py_in t (snd item) = Inr True)"

text \<open>
  A world where the range endpoint answers the 7-day request of noon with three dates, not
  in order, one of them without a rate for CNY.
\<close>

definition sparse_range :: world where
  "sparse_range = example_world
     [(historical_url example_lib (noon - 7 * 86400000000) noon ''USD'' ''CNY'',
       Response 200 (Inr (PDict [(''rates'',
         PDict [(''2026-11-02'', PDict [(''CNY'', PFloat (Fin (57 / 8)))]),
                (''2026-10-30'', PDict [(''EUR'', PFloat (Fin 1))]),
                (''2026-10-29'', PDict [(''CNY'', PInt 7)])])])))] noon"

section \<open>Properties of the rate cache\<close>



section \<open>Properties of the upstream fetcher\<close>

lemma diag_provider_on_exception [simp]: "diag_provider (on_exception L n e) = n"
  by (cases e) simp_all

lemma build_url_configured:
  "api_config \<in> set EXCHANGE_RATE_APIS \<Longrightarrow>
   build_url api_config b t = Inr (provider_url api_config b t)"
  by (auto simp: build_url_def EXCHANGE_RATE_APIS_def provider_url_def)

lemma extract_rate_configured:
  "api_config \<in> set EXCHANGE_RATE_APIS \<Longrightarrow>
   extract_rate api_config data t =
     ebind (py_get data ''rates'' (PDict [])) (\<lambda>rates. py_get rates t PNone)"
  by (auto simp: extract_rate_def EXCHANGE_RATE_APIS_def)

lemma try_api_offered:
  assumes "api_config \<in> set EXCHANGE_RATE_APIS"
  shows "try_api L w api_config b t =
     ([provider_url api_config b t],
      case offered L w api_config b t of
        Some (rate, d) \<Rightarrow> Inr \<lparr>r_rate = rate, r_date = d, r_source = api_name api_config\<rparr>
      | None \<Rightarrow> snd (try_api L w api_config b t))"
    and "offered L w api_config b t = None \<Longrightarrow>
         \<exists>dg. snd (try_api L w api_config b t) = Inl dg \<and> diag_provider dg = api_name api_config"
  unfolding try_api_def offered_def
  by (auto simp: build_url_configured[OF assms] extract_rate_configured[OF assms] ebind_def Let_def
      split: http_result.splits sum.splits pyval.splits option.splits)


lemma fetch_loop_all_fail:
  assumes "set cfgs \<subseteq> set EXCHANGE_RATE_APIS"
    and "\<forall>c\<in>set cfgs. offered L w c b t = None"
  shows "\<exists>ds. fetch_loop L w b t cfgs errs reqs =
            \<lparr>returned = None, errors = errs @ ds,
             requested = reqs @ map (\<lambda>c. provider_url c b t) cfgs\<rparr>
          \<and> map diag_provider ds = map api_name cfgs"
  using assms
proof (induction cfgs arbitrary: errs reqs)
  case Nil
  then show ?case by simp
next
  case (Cons c cfgs)
  have c: "c \<in> set EXCHANGE_RATE_APIS" and none: "offered L w c b t = None"
    using Cons.prems by auto
  obtain dg where dg: "try_api L w c b t = ([provider_url c b t], Inl dg)"
      "diag_provider dg = api_name c"
    using try_api_offered[OF c, of L w b t] none by auto
  obtain ds where ds: "fetch_loop L w b t cfgs (errs @ [dg]) (reqs @ [provider_url c b t]) =
            \<lparr>returned = None, errors = (errs @ [dg]) @ ds,
             requested = (reqs @ [provider_url c b t]) @ map (\<lambda>c. provider_url c b t) cfgs\<rparr>"
      "map diag_provider ds = map api_name cfgs"
    using Cons.IH[of "errs @ [dg]" "reqs @ [provider_url c b t]"] Cons.prems by auto
  show ?case
    by (rule exI[of _ "dg # ds"]) (simp add: dg ds)
qed








lemma fetch_none_offered:
  assumes "\<forall>c\<in>set EXCHANGE_RATE_APIS. offered L w c b t = None"
  shows "returned (fetch_loop L w b t EXCHANGE_RATE_APIS [] []) = None"
    and "requested (fetch_loop L w b t EXCHANGE_RATE_APIS [] []) =
           map (\<lambda>c. provider_url c b t) EXCHANGE_RATE_APIS"
  using fetch_loop_all_fail[OF subset_refl assms, of "[]" "[]"] by auto

lemma get_exchange_rate_miss:
  assumes "supported (str_upper L (args_get (arg_base req) ''USD''))"
    and "supported (str_upper L (args_get (arg_target req) ''CNY''))"
    and "fst (fst (get_cached_rate c (now_cache_read w)
            (str_upper L (args_get (arg_base req) ''USD''))
            (str_upper L (args_get (arg_target req) ''CNY'')))) = PNone"
    and "returned (get_exchange_rate_from_api L w
            (str_upper L (args_get (arg_base req) ''USD''))
            (str_upper L (args_get (arg_target req) ''CNY''))) = None"
  shows "\<exists>r. reply (get_exchange_rate L w c req) = Inr r \<and> status r = 503
            \<and> map_of (body r) ''success'' = Some (PBool False)"
  using assms
  by (auto simp: get_exchange_rate_def Let_def get_cached_rate_def split: option.splits prod.splits if_splits)

text \<open>
  C2. When no provider offers a rate for the pair: for base USD and target CNY the
  fetch returns the quote with the rate 6.99, the current date and the default (demo)
  source; for any other pair it returns nothing, and the exchange-rate endpoint, which
  calls the fetch for a supported pair it finds no fresh cache entry for, then answers
  503 with \<open>success\<close> false.
\<close>

theorem all_providers_fail:
  assumes "\<forall>c\<in>set EXCHANGE_RATE_APIS. offered L w c b t = None"
  shows "(b = ''USD'' \<and> t = ''CNY'' \<longrightarrow>
            returned (get_exchange_rate_from_api L w b t) =
              Some \<lparr>r_rate = PFloat (fl (699 / 100)),
                    r_date = PStr (strftime_ymd L (now_fetch w)),
                    r_source = default_source\<rparr>)
       \<and> (\<not> (b = ''USD'' \<and> t = ''CNY'') \<longrightarrow>
            returned (get_exchange_rate_from_api L w b t) = None
            \<and> (\<forall>c req. str_upper L (args_get (arg_base req) ''USD'') = b
                  \<and> str_upper L (args_get (arg_target req) ''CNY'') = t
                  \<and> supported b \<and> supported t
                  \<and> fst (fst (get_cached_rate c (now_cache_read w) b t)) = PNone
                 \<longrightarrow> (\<exists>r. reply (get_exchange_rate L w c req) = Inr r \<and> status r = 503
                        \<and> map_of (body r) ''success'' = Some (PBool False))))"
proof -
  note none = fetch_none_offered(1)[OF assms]
  have usd: "b = ''USD'' \<and> t = ''CNY'' \<Longrightarrow>
            returned (get_exchange_rate_from_api L w b t) =
              Some \<lparr>r_rate = PFloat (fl (699 / 100)),
                    r_date = PStr (strftime_ymd L (now_fetch w)),
                    r_source = default_source\<rparr>"
    using none by (simp add: get_exchange_rate_from_api_def Let_def)
  have other: "returned (get_exchange_rate_from_api L w b t) = None"
    if "\<not> (b = ''USD'' \<and> t = ''CNY'')"
    using none that by (simp add: get_exchange_rate_from_api_def Let_def)
  show ?thesis
    using usd other get_exchange_rate_miss[of L _ _ w] by blast
qed


lemma upper_examples:
  "ascii_upper ''eur'' = ''EUR''" "ascii_upper ''usd'' = ''USD''" "ascii_upper ''USD'' = ''USD''"
  "ascii_upper ''CNY'' = ''CNY''" "ascii_upper ''xyz'' = ''XYZ''"
  by code_simp+

lemma supported_examples:
  "supported ''EUR''" "supported ''USD''" "supported ''CNY''" "\<not> supported ''XYZ''"
  by (simp_all add: supported_def CURRENCY_DATA_def)

lemma offered_all_down: "offered example_lib all_down c b t = None"
  by (simp add: offered_def all_down_def example_world_def)

theorem all_providers_fail_witness:
  "returned (get_exchange_rate_from_api example_lib all_down ''USD'' ''CNY'') =
     Some \<lparr>r_rate = PFloat (fl (699 / 100)), r_date = PStr (strftime_ymd example_lib noon),
           r_source = default_source\<rparr>
   \<and> returned (get_exchange_rate_from_api example_lib all_down ''EUR'' ''USD'') = None
   \<and> (\<exists>r. reply (get_exchange_rate example_lib all_down Map.empty lower_eur_usd) = Inr r
          \<and> status r = 503 \<and> map_of (body r) ''success'' = Some (PBool False))"
proof -
  have none: "\<forall>c\<in>set EXCHANGE_RATE_APIS. offered example_lib all_down c b t = None" for b t
    by (simp add: offered_all_down)
  have now: "now_fetch all_down = noon"
    by (simp add: all_down_def example_world_def)
  have req: "str_upper example_lib (args_get (arg_base lower_eur_usd) ''USD'') = ''EUR''"
    "str_upper example_lib (args_get (arg_target lower_eur_usd) ''CNY'') = ''USD''"
    by (simp_all add: example_lib_def lower_eur_usd_def args_get_def upper_examples)
  have miss: "fst (fst (get_cached_rate Map.empty (now_cache_read all_down) ''EUR'' ''USD'')) = PNone"
    by (simp add: get_cached_rate_def)
  show ?thesis
    using all_providers_fail[OF none, of "''USD''" "''CNY''"]
      all_providers_fail[OF none, of "''EUR''" "''USD''"] req miss supported_examples now
    by auto
qed

section \<open>Properties of the exchange-rate endpoint\<close>

lemma try_api_truthy:
  "try_api L w c b t = (u, Inr r) \<Longrightarrow> truthy (r_rate r)"
  by (auto simp: try_api_def Let_def split: sum.splits http_result.splits if_splits)

lemma fetch_loop_truthy:
  "returned (fetch_loop L w b t cfgs errs reqs) = Some r \<Longrightarrow> truthy (r_rate r)"
proof (induction cfgs arbitrary: errs reqs)
  case Nil
  then show ?case by simp
next
  case (Cons c cfgs)
  obtain u res where tr: "try_api L w c b t = (u, res)" by (cases "try_api L w c b t")
  show ?case
  proof (cases res)
    case (Inl d)
    then show ?thesis using Cons tr by simp
  next
    case (Inr r')
    then have "r' = r" using Cons.prems tr by simp
    then show ?thesis using try_api_truthy tr Inr by blast
  qed
qed

lemma fetched_rate_truthy:
  assumes "returned (get_exchange_rate_from_api L w b t) = Some r"
  shows "truthy (r_rate r)"
proof (cases "returned (fetch_loop L w b t EXCHANGE_RATE_APIS [] [])")
  case None
  then have "r_rate r = PFloat (fl (699 / 100))"
    using assms by (auto simp: get_exchange_rate_from_api_def Let_def split: if_splits)
  then show ?thesis by (simp add: fl_699)
next
  case (Some r')
  then have "r' = r"
    using assms by (simp add: get_exchange_rate_from_api_def Let_def)
  then show ?thesis using Some fetch_loop_truthy by blast
qed

lemma truthy_not_None: "truthy v \<Longrightarrow> v \<noteq> PNone"
  by auto

lemma rate_result_Inr:
  "rate_result L w b t rate lu src cached = Inr r \<longleftrightarrow>
     (\<exists>inv bn tn. inverse_rate rate = Inr inv \<and> currency_name b = Inr bn
        \<and> currency_name t = Inr tn
        \<and> r = \<lparr>status = 200,
                body = [(''success'', PBool True), (''base_currency'', PStr b),
                        (''target_currency'', PStr t), (''exchange_rate'', rate),
                        (''inverse_rate'', inv), (''base_name'', bn), (''target_name'', tn),
                        (''last_updated'', lu), (''timestamp'', time_stamp L w),
                        (''source'', src), (''cached'', PBool cached)]\<rparr>)"
  by (auto simp: rate_result_def ebind_def split: sum.splits)

lemma get_exchange_rate_hit:
  assumes "supported (base_of L req)" "supported (target_of L req)"
    and "c (cache_key (base_of L req) (target_of L req)) = Some e"
    and "now_cache_read w - c_timestamp e < 300000000"
    and "c_rate e \<noteq> PNone"
  shows "get_exchange_rate L w c req =
           \<lparr>reply = rate_result L w (base_of L req) (target_of L req) (c_rate e)
                      (PStr (strftime_ymd L (now_response w))) (PStr (c_source e)) True,
            cache_after = c, upstream = []\<rparr>"
  using assms
  by (simp add: get_exchange_rate_def base_of_def target_of_def get_cached_rate_def
      timedelta_seconds_def CACHE_DURATION_def Let_def)

lemma get_exchange_rate_stale:
  assumes "supported (base_of L req)" "supported (target_of L req)"
    and "fst (fst (get_cached_rate c (now_cache_read w) (base_of L req) (target_of L req))) = PNone"
  shows "get_exchange_rate L w c req =
     (let f = get_exchange_rate_from_api L w (base_of L req) (target_of L req) in
      case returned f of
        None \<Rightarrow>
          \<lparr>reply = Inr \<lparr>status = 503,
             body = [(''success'', PBool False), (''error'', PStr msg_no_api),
                     (''suggestions'', msg_suggestions), (''timestamp'', time_stamp L w)]\<rparr>,
           cache_after = c, upstream = requested f\<rparr>
      | Some api_result \<Rightarrow>
          \<lparr>reply =
             (case rate_result L w (base_of L req) (target_of L req) (r_rate api_result)
                     (r_date api_result) (PStr (r_source api_result)) False of
                Inr r \<Rightarrow> Inr r
              | Inl e \<Rightarrow>
                  Inr \<lparr>status = 500,
                       body = [(''success'', PBool False),
                               (''error'', PStr (msg_server_error @ str_of_exc L e)),
                               (''details'', PStr msg_details),
                               (''timestamp'', time_stamp L w)]\<rparr>),
           cache_after = set_cached_rate c (now_cache_write w) (base_of L req) (target_of L req)
                           (r_rate api_result) (r_source api_result),
           upstream = requested f\<rparr>)"
  using assms
  by (auto simp: get_exchange_rate_def base_of_def target_of_def Let_def get_cached_rate_def
      split: option.splits prod.splits if_splits)


lemma get_exchange_rate_uncached_ok:
  assumes "reply (get_exchange_rate L w c req) = Inr r" "status r = 200"
    and "map_of (body r) ''cached'' = Some (PBool False)"
  shows "supported (base_of L req) \<and> supported (target_of L req)
       \<and> fst (fst (get_cached_rate c (now_cache_read w) (base_of L req) (target_of L req))) = PNone
       \<and> (\<exists>ar. returned (get_exchange_rate_from_api L w (base_of L req) (target_of L req)) = Some ar
             \<and> rate_result L w (base_of L req) (target_of L req) (r_rate ar) (r_date ar)
                  (PStr (r_source ar)) False = Inr r)"
proof -
  have b: "supported (base_of L req)"
  proof (rule ccontr)
    assume "\<not> ?thesis"
    then have "reply (get_exchange_rate L w c req)
        = Inr (bad_currency L w msg_bad_base (base_of L req))"
      by (simp add: get_exchange_rate_def base_of_def Let_def)
    then show False using assms(1,2) by (auto simp: bad_currency_def)
  qed
  have t: "supported (target_of L req)"
  proof (rule ccontr)
    assume "\<not> ?thesis"
    then have "reply (get_exchange_rate L w c req)
        = Inr (bad_currency L w msg_bad_target (target_of L req))"
      using b by (simp add: get_exchange_rate_def base_of_def target_of_def Let_def)
    then show False using assms(1,2) by (auto simp: bad_currency_def)
  qed
  have miss: "fst (fst (get_cached_rate c (now_cache_read w) (base_of L req) (target_of L req))) = PNone"
  proof (rule ccontr)
    assume hit: "\<not> ?thesis"
    obtain cr cs c' where gc:
      "get_cached_rate c (now_cache_read w) (base_of L req) (target_of L req) = ((cr, cs), c')"
      by (metis prod.exhaust)
    then have "cr \<noteq> PNone" using hit by simp
    then have "reply (get_exchange_rate L w c req) =
       rate_result L w (base_of L req) (target_of L req) cr
         (PStr (strftime_ymd L (now_response w))) cs True"
      using b t gc
      by (simp add: get_exchange_rate_def base_of_def target_of_def Let_def)
    then have "rate_result L w (base_of L req) (target_of L req) cr
         (PStr (strftime_ymd L (now_response w))) cs True = Inr r"
      using assms(1) by simp
    then show False
      using assms(3) by (auto simp: rate_result_Inr)
  qed
  note st = get_exchange_rate_stale[OF b t miss]
  show ?thesis
  proof (cases "returned (get_exchange_rate_from_api L w (base_of L req) (target_of L req))")
    case None
    then show ?thesis using st assms(1,2) by (auto simp: Let_def)
  next
    case (Some ar)
    then have "rate_result L w (base_of L req) (target_of L req) (r_rate ar) (r_date ar)
                  (PStr (r_source ar)) False = Inr r"
      using st assms(1,2) by (auto simp: Let_def split: sum.splits)
    then show ?thesis using b t miss Some by simp
  qed
qed

text \<open>
  C5. Suppose a request to the exchange-rate endpoint is answered 200 with \<open>cached\<close>
  false, that is from a fetch. Then the cache holds, under the pair's key, an entry with
  the rate of the response and the time of the write, whatever it held before. A
  following request for the pair whose cache read comes less than 300 seconds after
  that write is answered 200 with the same rate and \<open>cached\<close> true, and asks no provider.
  One whose cache read comes 300 seconds or more after the write asks the providers
  again: it requests what a fetch requests and answers as if the cache were empty.
\<close>

theorem cached_after_fetch:
  assumes "reply (get_exchange_rate L w1 c0 req) = Inr r1" "status r1 = 200"
    and "map_of (body r1) ''cached'' = Some (PBool False)"
  shows "\<exists>rate src.
      map_of (body r1) ''exchange_rate'' = Some rate
    \<and> cache_after (get_exchange_rate L w1 c0 req) (cache_key (base_of L req) (target_of L req))
        = Some \<lparr>c_rate = rate, c_source = src, c_timestamp = now_cache_write w1\<rparr>
    \<and> (\<forall>w2. now_cache_read w2 - now_cache_write w1 < 300000000 \<longrightarrow>
          upstream (get_exchange_rate L w2 (cache_after (get_exchange_rate L w1 c0 req)) req) = []
          \<and> (\<exists>r2. reply (get_exchange_rate L w2 (cache_after (get_exchange_rate L w1 c0 req)) req)
                     = Inr r2
                \<and> status r2 = 200
                \<and> map_of (body r2) ''exchange_rate'' = Some rate
                \<and> map_of (body r2) ''cached'' = Some (PBool True)))
    \<and> (\<forall>w2. 300000000 \<le> now_cache_read w2 - now_cache_write w1 \<longrightarrow>
          upstream (get_exchange_rate L w2 (cache_after (get_exchange_rate L w1 c0 req)) req)
            = requested (get_exchange_rate_from_api L w2 (base_of L req) (target_of L req))
          \<and> reply (get_exchange_rate L w2 (cache_after (get_exchange_rate L w1 c0 req)) req)
            = reply (get_exchange_rate L w2 Map.empty req))"
proof -
  let ?b = "base_of L req" and ?t = "target_of L req"
  from get_exchange_rate_uncached_ok[OF assms]
  obtain ar where b: "supported ?b" and t: "supported ?t"
    and miss: "fst (fst (get_cached_rate c0 (now_cache_read w1) ?b ?t)) = PNone"
    and ar: "returned (get_exchange_rate_from_api L w1 ?b ?t) = Some ar"
    and rr: "rate_result L w1 ?b ?t (r_rate ar) (r_date ar) (PStr (r_source ar)) False = Inr r1"
    by blast
  let ?c1 = "cache_after (get_exchange_rate L w1 c0 req)"
  let ?e = "\<lparr>c_rate = r_rate ar, c_source = r_source ar, c_timestamp = now_cache_write w1\<rparr>"
  have c1: "?c1 = set_cached_rate c0 (now_cache_write w1) ?b ?t (r_rate ar) (r_source ar)"
    using get_exchange_rate_stale[OF b t miss] ar by (simp add: Let_def)
  then have entry: "?c1 (cache_key ?b ?t) = Some ?e"
    by (simp add: set_cached_rate_def)
  have rate1: "map_of (body r1) ''exchange_rate'' = Some (r_rate ar)"
    using rr by (auto simp: rate_result_Inr)
  have notnone: "r_rate ar \<noteq> PNone"
    using fetched_rate_truthy[OF ar] by auto
  obtain inv bn tn where parts: "inverse_rate (r_rate ar) = Inr inv" "currency_name ?b = Inr bn"
      "currency_name ?t = Inr tn"
    using rr by (auto simp: rate_result_Inr)
  have fresh: "upstream (get_exchange_rate L w2 ?c1 req) = []
          \<and> (\<exists>r2. reply (get_exchange_rate L w2 ?c1 req) = Inr r2 \<and> status r2 = 200
                \<and> map_of (body r2) ''exchange_rate'' = Some (r_rate ar)
                \<and> map_of (body r2) ''cached'' = Some (PBool True))"
    if "now_cache_read w2 - now_cache_write w1 < 300000000" for w2
  proof -
    have "get_exchange_rate L w2 ?c1 req =
           \<lparr>reply = rate_result L w2 ?b ?t (c_rate ?e)
                      (PStr (strftime_ymd L (now_response w2))) (PStr (c_source ?e)) True,
            cache_after = ?c1, upstream = []\<rparr>"
      by (rule get_exchange_rate_hit[of L req ?c1 ?e w2, OF b t entry]) (use that notnone in simp_all)
    then show ?thesis
      using parts by (simp add: rate_result_def ebind_def)
  qed
  have stale: "upstream (get_exchange_rate L w2 ?c1 req)
            = requested (get_exchange_rate_from_api L w2 ?b ?t)
          \<and> reply (get_exchange_rate L w2 ?c1 req) = reply (get_exchange_rate L w2 Map.empty req)"
    if "300000000 \<le> now_cache_read w2 - now_cache_write w1" for w2
  proof -
    have m1: "fst (fst (get_cached_rate ?c1 (now_cache_read w2) ?b ?t)) = PNone"
      using that entry
      by (simp add: get_cached_rate_def timedelta_seconds_def CACHE_DURATION_def)
    have m2: "fst (fst (get_cached_rate Map.empty (now_cache_read w2) ?b ?t)) = PNone"
      by (simp add: get_cached_rate_def)
    show ?thesis
      unfolding get_exchange_rate_stale[OF b t m1] get_exchange_rate_stale[OF b t m2]
      by (simp add: Let_def split: option.splits)
  qed
  show ?thesis
    using rate1 entry fresh stale by blast
qed


lemma no_args_pair: "base_of example_lib no_args = ''USD''" "target_of example_lib no_args = ''CNY''"
  by (simp_all add: base_of_def target_of_def no_args_def args_get_def example_lib_def
      upper_examples)

lemma fetch_first_answers:
  "get_exchange_rate_from_api example_lib first_answers ''USD'' ''CNY'' =
     \<lparr>returned = Some \<lparr>r_rate = PFloat (Fin (57 / 8)),
                        r_date = PStr (strftime_ymd example_lib noon),
                        r_source = ''ExchangeRate-API''\<rparr>,
      errors = [], requested = [''https://api.exchangerate-api.com/v4/latest/USD'']\<rparr>"
  by (simp add: get_exchange_rate_from_api_def EXCHANGE_RATE_APIS_def try_api_def build_url_def
      extract_rate_def ebind_def first_answers_def example_world_def json_rates_def)

lemma fetch_all_down:
  "requested (get_exchange_rate_from_api L (example_world [] t0) ''USD'' ''CNY'') =
     [''https://api.exchangerate-api.com/v4/latest/USD'',
      ''https://api.frankfurter.app/latest?from=USD&to=CNY'',
      ''https://open.er-api.com/v6/latest/USD'']"
  by (simp add: get_exchange_rate_from_api_def EXCHANGE_RATE_APIS_def try_api_def build_url_def
      example_world_def)

lemma first_response:
  "\<exists>r1. reply (get_exchange_rate example_lib first_answers Map.empty no_args) = Inr r1
      \<and> status r1 = 200 \<and> map_of (body r1) ''cached'' = Some (PBool False)
      \<and> map_of (body r1) ''exchange_rate'' = Some (PFloat (Fin (57 / 8)))"
proof -
  have m: "fst (fst (get_cached_rate Map.empty (now_cache_read first_answers)
             (base_of example_lib no_args) (target_of example_lib no_args))) = PNone"
    by (simp add: get_cached_rate_def)
  show ?thesis
    unfolding get_exchange_rate_stale[of example_lib no_args Map.empty first_answers, OF _ _ m,
        unfolded no_args_pair, OF supported_examples(2,3)]
    by (simp add: fetch_first_answers rate_result_def inverse_rate_def ebind_def
        currency_name_def CURRENCY_DATA_def)
qed

theorem cached_after_fetch_witness:
  "\<exists>r1. reply (get_exchange_rate example_lib first_answers Map.empty no_args) = Inr r1
      \<and> status r1 = 200 \<and> map_of (body r1) ''cached'' = Some (PBool False)
      \<and> map_of (body r1) ''exchange_rate'' = Some (PFloat (Fin (57 / 8)))
      \<and> upstream (get_exchange_rate example_lib (example_world [] (noon + 299999999))
            (cache_after (get_exchange_rate example_lib first_answers Map.empty no_args)) no_args)
          = []
      \<and> (\<exists>r2. reply (get_exchange_rate example_lib (example_world [] (noon + 299999999))
            (cache_after (get_exchange_rate example_lib first_answers Map.empty no_args)) no_args)
              = Inr r2
            \<and> status r2 = 200
            \<and> map_of (body r2) ''exchange_rate'' = Some (PFloat (Fin (57 / 8)))
            \<and> map_of (body r2) ''cached'' = Some (PBool True))
      \<and> upstream (get_exchange_rate example_lib (example_world [] (noon + 300000000))
            (cache_after (get_exchange_rate example_lib first_answers Map.empty no_args)) no_args)
          = [''https://api.exchangerate-api.com/v4/latest/USD'',
             ''https://api.frankfurter.app/latest?from=USD&to=CNY'',
             ''https://open.er-api.com/v6/latest/USD'']"
proof -
  obtain r1 where r1: "reply (get_exchange_rate example_lib first_answers Map.empty no_args) = Inr r1"
      "status r1 = 200" "map_of (body r1) ''cached'' = Some (PBool False)"
      "map_of (body r1) ''exchange_rate'' = Some (PFloat (Fin (57 / 8)))"
    using first_response by blast
  have w1: "now_cache_write first_answers = noon"
    by (simp add: first_answers_def example_world_def)
  have early: "now_cache_read (example_world [] (noon + 299999999)) - now_cache_write first_answers
       < 300000000"
    and late: "300000000 \<le> now_cache_read (example_world [] (noon + 300000000))
       - now_cache_write first_answers"
    by (simp_all add: w1 example_world_def)
  from cached_after_fetch[OF r1(1,2,3)] r1(4) early late
  show ?thesis
    using r1 by (auto simp: no_args_pair fetch_all_down)
qed

lemma get_exchange_rate_200:
  assumes "reply (get_exchange_rate L w c req) = Inr r" "status r = 200"
  shows "\<exists>rate lu src cached.
           rate_result L w (base_of L req) (target_of L req) rate lu src cached = Inr r"
proof -
  have b: "supported (base_of L req)"
  proof (rule ccontr)
    assume "\<not> ?thesis"
    then have "reply (get_exchange_rate L w c req)
        = Inr (bad_currency L w msg_bad_base (base_of L req))"
      by (simp add: get_exchange_rate_def base_of_def Let_def)
    then show False using assms(1,2) by (auto simp: bad_currency_def)
  qed
  have t: "supported (target_of L req)"
  proof (rule ccontr)
    assume "\<not> ?thesis"
    then have "reply (get_exchange_rate L w c req)
        = Inr (bad_currency L w msg_bad_target (target_of L req))"
      using b by (simp add: get_exchange_rate_def base_of_def target_of_def Let_def)
    then show False using assms(1,2) by (auto simp: bad_currency_def)
  qed
  obtain cr cs c' where gc:
    "get_cached_rate c (now_cache_read w) (base_of L req) (target_of L req) = ((cr, cs), c')"
    by (metis prod.exhaust)
  show ?thesis
  proof (cases "cr = PNone")
    case False
    then have "reply (get_exchange_rate L w c req) =
       rate_result L w (base_of L req) (target_of L req) cr
         (PStr (strftime_ymd L (now_response w))) cs True"
      using b t gc
      by (simp add: get_exchange_rate_def base_of_def target_of_def Let_def)
    then show ?thesis using assms(1) by metis
  next
    case True
    then have miss: "fst (fst (get_cached_rate c (now_cache_read w) (base_of L req)
        (target_of L req))) = PNone"
      using gc by simp
    note st = get_exchange_rate_stale[OF b t miss]
    show ?thesis
    proof (cases "returned (get_exchange_rate_from_api L w (base_of L req) (target_of L req))")
      case None
      then show ?thesis using st assms(1,2) by (auto simp: Let_def)
    next
      case (Some ar)
      then have "rate_result L w (base_of L req) (target_of L req) (r_rate ar) (r_date ar)
                    (PStr (r_source ar)) False = Inr r"
        using st assms(1,2) by (auto simp: Let_def split: sum.splits)
      then show ?thesis by blast
    qed
  qed
qed

text \<open>
  C8. In every successful (200) response of the exchange-rate endpoint, cached or
  fetched, \<open>inverse_rate\<close> is \<open>1 / exchange_rate\<close> as Python divides when the rate is
  not equal to zero, and the integer 0 when it is. For a finite non-zero float rate
  \<open>x\<close> the quotient is the binary64 number nearest to \<open>1 / x\<close>, and likewise for a
  non-zero int.
\<close>

theorem inverse_rate_in_response:
  assumes "reply (get_exchange_rate L w c req) = Inr r" "status r = 200"
  shows "\<exists>rate inv cached.
            map_of (body r) ''exchange_rate'' = Some rate
          \<and> map_of (body r) ''inverse_rate'' = Some inv
          \<and> map_of (body r) ''cached'' = Some (PBool cached)
          \<and> (if py_ne_zero rate then py_one_div rate = Inr inv else inv = PInt 0)
          \<and> (\<forall>x. rate = PFloat (Fin x) \<and> x \<noteq> 0 \<longrightarrow> inv = PFloat (fl (1 / x)))
          \<and> (\<forall>n. rate = PInt n \<and> n \<noteq> 0 \<longrightarrow> inv = PFloat (fl (1 / of_int n)))
          \<and> (rate = PFloat (Fin 0) \<or> rate = PInt 0 \<longrightarrow> inv = PInt 0)"
proof -
  obtain rate lu src cached where
    "rate_result L w (base_of L req) (target_of L req) rate lu src cached = Inr r"
    using get_exchange_rate_200[OF assms] by blast
  then obtain inv where inv: "inverse_rate rate = Inr inv"
    and ex: "map_of (body r) ''exchange_rate'' = Some rate"
    and iv: "map_of (body r) ''inverse_rate'' = Some inv"
    and ca: "map_of (body r) ''cached'' = Some (PBool cached)"
    by (auto simp: rate_result_Inr)
  have 1: "if py_ne_zero rate then py_one_div rate = Inr inv else inv = PInt 0"
    using inv by (auto simp: inverse_rate_def)
  have 2: "\<forall>x. rate = PFloat (Fin x) \<and> x \<noteq> 0 \<longrightarrow> inv = PFloat (fl (1 / x))"
    using inv by (auto simp: inverse_rate_def)
  have 3: "\<forall>n. rate = PInt n \<and> n \<noteq> 0 \<longrightarrow> inv = PFloat (fl (1 / of_int n))"
    using inv by (auto simp: inverse_rate_def)
  have 4: "rate = PFloat (Fin 0) \<or> rate = PInt 0 \<longrightarrow> inv = PInt 0"
    using inv by (auto simp: inverse_rate_def)
  show ?thesis using ex iv ca 1 2 3 4 by blast
qed

lemma cached_zero_response:
  "\<exists>r. reply (get_exchange_rate example_lib all_down zero_cached no_args) = Inr r
      \<and> status r = 200 \<and> map_of (body r) ''cached'' = Some (PBool True)
      \<and> map_of (body r) ''exchange_rate'' = Some (PFloat (Fin 0))"
proof -
  have e: "zero_cached (cache_key (base_of example_lib no_args) (target_of example_lib no_args))
     = Some \<lparr>c_rate = PFloat (Fin 0), c_source = ''Frankfurter'', c_timestamp = noon\<rparr>"
    by (simp add: zero_cached_def no_args_pair)
  have "get_exchange_rate example_lib all_down zero_cached no_args =
           \<lparr>reply = rate_result example_lib all_down (base_of example_lib no_args)
                      (target_of example_lib no_args) (PFloat (Fin 0))
                      (PStr (strftime_ymd example_lib (now_response all_down)))
                      (PStr ''Frankfurter'') True,
            cache_after = zero_cached, upstream = []\<rparr>"
    using get_exchange_rate_hit[of example_lib no_args zero_cached _ all_down, OF _ _ e]
    by (simp add: no_args_pair supported_examples all_down_def example_world_def)
  then show ?thesis
    by (simp add: no_args_pair rate_result_def inverse_rate_def ebind_def
        currency_name_def CURRENCY_DATA_def)
qed

theorem inverse_rate_in_response_witness:
  "(\<exists>r. reply (get_exchange_rate example_lib first_answers Map.empty no_args) = Inr r
      \<and> status r = 200 \<and> map_of (body r) ''cached'' = Some (PBool False)
      \<and> map_of (body r) ''exchange_rate'' = Some (PFloat (Fin (57 / 8)))
      \<and> map_of (body r) ''inverse_rate'' = Some (PFloat (fl (8 / 57))))
   \<and> (\<exists>r. reply (get_exchange_rate example_lib all_down zero_cached no_args) = Inr r
      \<and> status r = 200 \<and> map_of (body r) ''cached'' = Some (PBool True)
      \<and> map_of (body r) ''exchange_rate'' = Some (PFloat (Fin 0))
      \<and> map_of (body r) ''inverse_rate'' = Some (PInt 0))"
proof -
  obtain r1 where r1: "reply (get_exchange_rate example_lib first_answers Map.empty no_args) = Inr r1"
      "status r1 = 200" "map_of (body r1) ''cached'' = Some (PBool False)"
      "map_of (body r1) ''exchange_rate'' = Some (PFloat (Fin (57 / 8)))"
    using first_response by blast
  obtain r2 where r2: "reply (get_exchange_rate example_lib all_down zero_cached no_args) = Inr r2"
      "status r2 = 200" "map_of (body r2) ''cached'' = Some (PBool True)"
      "map_of (body r2) ''exchange_rate'' = Some (PFloat (Fin 0))"
    using cached_zero_response by blast
  have i1: "map_of (body r1) ''inverse_rate'' = Some (PFloat (fl (8 / 57)))"
    using inverse_rate_in_response[OF r1(1,2)] r1(4) by auto
  have i2: "map_of (body r2) ''inverse_rate'' = Some (PInt 0)"
    using inverse_rate_in_response[OF r2(1,2)] r2(4) by auto
  show ?thesis using r1 r2 i1 i2 by blast
qed

section \<open>Properties of the conversion endpoint\<close>

lemma fpositive_not_fle: "fpositive a \<Longrightarrow> \<not> fle a (Fin 0)"
  by (cases a) auto

lemma convert_result_Inr:
  "convert_result L w b t a ar = Inr r \<longleftrightarrow>
     (\<exists>v bn tn. py_float_mul a (r_rate ar) = Inr v \<and> currency_name b = Inr bn
        \<and> currency_name t = Inr tn
        \<and> r = \<lparr>status = 200,
                body = [(''success'', PBool True), (''amount'', PFloat a),
                        (''converted_amount'', v), (''base_currency'', PStr b),
                        (''target_currency'', PStr t), (''exchange_rate'', r_rate ar),
                        (''base_name'', bn), (''target_name'', tn),
                        (''formatted'',
                           PStr (format_2f L a @ '' '' @ b @ '' = ''
                             @ (case v of PFloat c \<Rightarrow> format_2f L c | _ \<Rightarrow> [])
                             @ '' '' @ t)),
                        (''source'', PStr (r_source ar)), (''timestamp'', time_stamp L w)]\<rparr>)"
  by (auto simp: convert_result_def ebind_def Let_def split: sum.splits)

lemma convert_amount_accepted:
  assumes "parse_amount L (arg_amount req) = Some a" "\<not> fle a (Fin 0)"
  shows "convert_amount L w c req =
     (let f = get_exchange_rate_from_api L w (base_of L req) (target_of L req) in
      \<lparr>reply =
         (case returned f of
            None \<Rightarrow> Inr (error_response L w 503 msg_no_rate)
          | Some api_result \<Rightarrow>
              (case convert_result L w (base_of L req) (target_of L req) a api_result of
                 Inr r \<Rightarrow> Inr r
               | Inl e \<Rightarrow> Inr (error_response L w 500 (msg_convert_failed @ str_of_exc L e)))),
       cache_after = c, upstream = requested f\<rparr>)"
  unfolding convert_amount_def base_of_def target_of_def using assms by (simp add: Let_def)

lemma convert_amount_200:
  assumes "parse_amount L (arg_amount req) = Some a" "\<not> fle a (Fin 0)"
    and "reply (convert_amount L w c req) = Inr r" "status r = 200"
  shows "\<exists>ar. returned (get_exchange_rate_from_api L w (base_of L req) (target_of L req)) = Some ar
           \<and> convert_result L w (base_of L req) (target_of L req) a ar = Inr r"
proof (cases "returned (get_exchange_rate_from_api L w (base_of L req) (target_of L req))")
  case None
  then show ?thesis
    using assms(3,4) unfolding convert_amount_accepted[OF assms(1,2)]
    by (auto simp: Let_def error_response_def)
next
  case (Some ar)
  then show ?thesis
    using assms(3,4) unfolding convert_amount_accepted[OF assms(1,2)]
    by (auto simp: Let_def error_response_def split: sum.splits)
qed

text \<open>
  The conversion endpoint on a positive amount and on the amounts it refuses. For a
  positive amount \<open>A\<close> and the fetched rate \<open>R\<close>, a successful (200) conversion
  response reports \<open>converted_amount\<close> as the product \<open>A * R\<close> Python computes; for a
  float rate that is the binary64 product \<open>fmul A R\<close>. In particular, for USD to CNY
  with the amount 100 and no provider offering a rate, the fallback rate 6.99 gives
  exactly 699.0. An amount that \<open>float\<close> does not parse, or one that is less than or
  equal to zero, is answered 400 with \<open>success\<close> false, and no provider is asked.
\<close>

theorem convert_amount_product:
  "(\<forall>a r. parse_amount L (arg_amount req) = Some a \<and> fpositive a
        \<and> reply (convert_amount L w c req) = Inr r \<and> status r = 200 \<longrightarrow>
      (\<exists>ar v. returned (get_exchange_rate_from_api L w (base_of L req) (target_of L req)) = Some ar
         \<and> py_float_mul a (r_rate ar) = Inr v
         \<and> map_of (body r) ''amount'' = Some (PFloat a)
         \<and> map_of (body r) ''exchange_rate'' = Some (r_rate ar)
         \<and> map_of (body r) ''converted_amount'' = Some v
         \<and> (\<forall>x. r_rate ar = PFloat x \<longrightarrow> v = PFloat (fmul a x))))
   \<and> (parse_amount L (arg_amount req) = Some (Fin 100)
        \<and> base_of L req = ''USD'' \<and> target_of L req = ''CNY''
        \<and> (\<forall>p\<in>set EXCHANGE_RATE_APIS. offered L w p ''USD'' ''CNY'' = None) \<longrightarrow>
      (\<exists>r. reply (convert_amount L w c req) = Inr r \<and> status r = 200
         \<and> map_of (body r) ''exchange_rate'' = Some (PFloat (fl (699 / 100)))
         \<and> map_of (body r) ''converted_amount'' = Some (PFloat (Fin 699))))
   \<and> (parse_amount L (arg_amount req) = None
        \<or> (\<exists>a. parse_amount L (arg_amount req) = Some a \<and> fle a (Fin 0)) \<longrightarrow>
      (\<exists>r. reply (convert_amount L w c req) = Inr r \<and> status r = 400
         \<and> map_of (body r) ''success'' = Some (PBool False))
      \<and> upstream (convert_amount L w c req) = [])"
proof (intro conjI allI impI)
  fix a r
  assume h: "parse_amount L (arg_amount req) = Some a \<and> fpositive a
        \<and> reply (convert_amount L w c req) = Inr r \<and> status r = 200"
  then have nf: "\<not> fle a (Fin 0)" using fpositive_not_fle by blast
  obtain ar where ar: "returned (get_exchange_rate_from_api L w (base_of L req) (target_of L req))
        = Some ar"
    and cr: "convert_result L w (base_of L req) (target_of L req) a ar = Inr r"
    using convert_amount_200[OF _ nf] h by blast
  obtain v where v: "py_float_mul a (r_rate ar) = Inr v"
    "map_of (body r) ''amount'' = Some (PFloat a)"
    "map_of (body r) ''exchange_rate'' = Some (r_rate ar)"
    "map_of (body r) ''converted_amount'' = Some v"
    using cr by (auto simp: convert_result_Inr)
  have "\<forall>x. r_rate ar = PFloat x \<longrightarrow> v = PFloat (fmul a x)"
    using v(1) by auto
  then show "\<exists>ar v. returned (get_exchange_rate_from_api L w (base_of L req) (target_of L req)) = Some ar
         \<and> py_float_mul a (r_rate ar) = Inr v
         \<and> map_of (body r) ''amount'' = Some (PFloat a)
         \<and> map_of (body r) ''exchange_rate'' = Some (r_rate ar)
         \<and> map_of (body r) ''converted_amount'' = Some v
         \<and> (\<forall>x. r_rate ar = PFloat x \<longrightarrow> v = PFloat (fmul a x))"
    using ar v by blast
next
  assume h: "parse_amount L (arg_amount req) = Some (Fin 100)
        \<and> base_of L req = ''USD'' \<and> target_of L req = ''CNY''
        \<and> (\<forall>p\<in>set EXCHANGE_RATE_APIS. offered L w p ''USD'' ''CNY'' = None)"
  then have none: "\<forall>p\<in>set EXCHANGE_RATE_APIS. offered L w p ''USD'' ''CNY'' = None" by blast
  have ret: "returned (get_exchange_rate_from_api L w ''USD'' ''CNY'') =
              Some \<lparr>r_rate = PFloat (fl (699 / 100)),
                    r_date = PStr (strftime_ymd L (now_fetch w)),
                    r_source = default_source\<rparr>"
    using fetch_none_offered(1)[OF none] by (simp add: get_exchange_rate_from_api_def Let_def)
  have nf: "\<not> fle (Fin 100) (Fin 0)" by simp
  have pa: "parse_amount L (arg_amount req) = Some (Fin 100)" using h by blast
  show "\<exists>r. reply (convert_amount L w c req) = Inr r \<and> status r = 200
         \<and> map_of (body r) ''exchange_rate'' = Some (PFloat (fl (699 / 100)))
         \<and> map_of (body r) ''converted_amount'' = Some (PFloat (Fin 699))"
    unfolding convert_amount_accepted[OF pa nf]
    using h ret
    by (simp add: Let_def convert_result_def ebind_def currency_name_def CURRENCY_DATA_def
        hundred_times_699)
next
  assume h: "parse_amount L (arg_amount req) = None
        \<or> (\<exists>a. parse_amount L (arg_amount req) = Some a \<and> fle a (Fin 0))"
  then show "\<exists>r. reply (convert_amount L w c req) = Inr r \<and> status r = 400
         \<and> map_of (body r) ''success'' = Some (PBool False)"
    by (auto simp: convert_amount_def Let_def error_response_def)
next
  assume h: "parse_amount L (arg_amount req) = None
        \<or> (\<exists>a. parse_amount L (arg_amount req) = Some a \<and> fle a (Fin 0))"
  then show "upstream (convert_amount L w c req) = []"
    by (auto simp: convert_amount_def Let_def)
qed


lemma parse_examples:
  "parse_decimal ''100'' = Some 100" "parse_decimal ''0'' = Some 0" "parse_decimal ''abc'' = None"
  by code_simp+

lemma parse_amount_examples:
  "parse_amount example_lib (arg_amount (amount_request b t ''100'')) = Some (Fin 100)"
  "parse_amount example_lib (arg_amount (amount_request b t ''0'')) = Some (Fin 0)"
  "parse_amount example_lib (arg_amount (amount_request b t ''abc'')) = None"
  by (simp_all add: parse_amount_def amount_request_def example_lib_def parse_examples)

lemma amount_request_pair:
  "base_of example_lib (amount_request ''USD'' ''CNY'' a) = ''USD''"
  "target_of example_lib (amount_request ''USD'' ''CNY'' a) = ''CNY''"
  "base_of example_lib (amount_request ''xyz'' ''CNY'' a) = ''XYZ''"
  "target_of example_lib (amount_request ''xyz'' ''CNY'' a) = ''CNY''"
  by (simp_all add: base_of_def target_of_def amount_request_def args_get_def example_lib_def
      upper_examples)

theorem convert_amount_product_witness:
  "(\<exists>r. reply (convert_amount example_lib all_down Map.empty (amount_request ''USD'' ''CNY'' ''100''))
          = Inr r \<and> status r = 200
        \<and> map_of (body r) ''exchange_rate'' = Some (PFloat (fl (699 / 100)))
        \<and> map_of (body r) ''converted_amount'' = Some (PFloat (Fin 699)))
   \<and> (\<exists>r. reply (convert_amount example_lib all_down Map.empty (amount_request ''USD'' ''CNY'' ''abc''))
          = Inr r \<and> status r = 400 \<and> map_of (body r) ''success'' = Some (PBool False))
   \<and> upstream (convert_amount example_lib all_down Map.empty (amount_request ''USD'' ''CNY'' ''abc''))
        = []
   \<and> (\<exists>r. reply (convert_amount example_lib all_down Map.empty (amount_request ''USD'' ''CNY'' ''0''))
          = Inr r \<and> status r = 400 \<and> map_of (body r) ''success'' = Some (PBool False))
   \<and> upstream (convert_amount example_lib all_down Map.empty (amount_request ''USD'' ''CNY'' ''0''))
        = []"
proof -
  have none: "\<forall>p\<in>set EXCHANGE_RATE_APIS. offered example_lib all_down p ''USD'' ''CNY'' = None"
    by (simp add: offered_all_down)
  have zero: "fle (Fin 0) (Fin 0)" by simp
  show ?thesis
    using convert_amount_product[of example_lib "amount_request ''USD'' ''CNY'' ''100''" all_down Map.empty]
      convert_amount_product[of example_lib "amount_request ''USD'' ''CNY'' ''abc''" all_down Map.empty]
      convert_amount_product[of example_lib "amount_request ''USD'' ''CNY'' ''0''" all_down Map.empty]
      none zero
    by (simp add: parse_amount_examples amount_request_pair)
qed

section \<open>Validation of the currency codes\<close>

lemma validating_handlers_reject:
  assumes "\<not> supported (base_of L req)"
  shows "get_exchange_rate L w c req =
           \<lparr>reply = Inr (bad_currency L w msg_bad_base (base_of L req)),
            cache_after = c, upstream = []\<rparr>"
    and "get_historical_data L w c req =
           \<lparr>reply = Inr (bad_currency L w msg_bad_base (base_of L req)),
            cache_after = c, upstream = []\<rparr>"
    and "status (bad_currency L w msg code) = 400"
    and "map_of (body (bad_currency L w msg code)) ''success'' = Some (PBool False)"
    and "map_of (body (bad_currency L w msg code)) ''error'' = Some (PStr (msg @ code))"
  using assms
  by (simp_all add: get_exchange_rate_def get_historical_data_def base_of_def Let_def
      bad_currency_def)

lemma validating_handlers_reject_target:
  assumes "supported (base_of L req)" "\<not> supported (target_of L req)"
  shows "get_exchange_rate L w c req =
           \<lparr>reply = Inr (bad_currency L w msg_bad_target (target_of L req)),
            cache_after = c, upstream = []\<rparr>"
    and "get_historical_data L w c req =
           \<lparr>reply = Inr (bad_currency L w msg_bad_target (target_of L req)),
            cache_after = c, upstream = []\<rparr>"
  using assms
  by (simp_all add: get_exchange_rate_def get_historical_data_def base_of_def target_of_def
      Let_def)

lemma fetch_loop_requested:
  "\<exists>more. requested (fetch_loop L w b t cfgs errs reqs) = reqs @ more"
proof (induction cfgs arbitrary: errs reqs)
  case Nil
  then show ?case by simp
next
  case (Cons c cfgs)
  obtain u res where tr: "try_api L w c b t = (u, res)" by (cases "try_api L w c b t")
  show ?case
  proof (cases res)
    case (Inl d)
    obtain more where "requested (fetch_loop L w b t cfgs (errs @ [d]) (reqs @ u)) = (reqs @ u) @ more"
      using Cons.IH by blast
    then show ?thesis using tr Inl by simp
  next
    case (Inr r)
    then show ?thesis using tr by simp
  qed
qed

lemma fetch_requests_first_provider:
  "\<exists>more. requested (get_exchange_rate_from_api L w b t)
      = (''https://api.exchangerate-api.com/v4/latest/'' @ b) # more"
proof -
  let ?a = "EXCHANGE_RATE_APIS ! 0"
  have a: "?a \<in> set EXCHANGE_RATE_APIS" by (simp add: EXCHANGE_RATE_APIS_def)
  have u: "provider_url ?a b t = ''https://api.exchangerate-api.com/v4/latest/'' @ b"
    by (simp add: provider_url_def EXCHANGE_RATE_APIS_def)
  obtain res where tr: "try_api L w ?a b t = ([provider_url ?a b t], res)"
    using try_api_offered(1)[OF a] by blast
  have l: "EXCHANGE_RATE_APIS = ?a # tl EXCHANGE_RATE_APIS"
    by (simp add: EXCHANGE_RATE_APIS_def)
  have "\<exists>more. requested (fetch_loop L w b t (?a # tl EXCHANGE_RATE_APIS) [] [])
      = provider_url ?a b t # more"
  proof (cases res)
    case (Inl d)
    then show ?thesis
      using tr fetch_loop_requested[of L w b t "tl EXCHANGE_RATE_APIS" "[d]" "[provider_url ?a b t]"]
      by auto
  next
    case (Inr r)
    then show ?thesis using tr by simp
  qed
  then have "\<exists>more. requested (fetch_loop L w b t EXCHANGE_RATE_APIS [] [])
      = provider_url ?a b t # more"
    using l by simp
  then show ?thesis
    unfolding u by (auto simp: get_exchange_rate_from_api_def Let_def split: option.splits)
qed

text \<open>
  C3 fails for the conversion endpoint. \<open>convert_amount\<close> does not look the codes up in
  \<open>CURRENCY_DATA\<close> before fetching: for every request with an accepted amount it asks the
  first provider for the base code as given, it never answers 400, and for a code
  outside the registry it answers 503 (no provider has a rate) or 500 (the lookup of
  the currency's name raises KeyError after the fetch). The exchange-rate and
  historical endpoints do validate, see \<open>validating_handlers_reject\<close>.
\<close>

theorem convert_amount_never_validates:
  assumes "parse_amount L (arg_amount req) = Some a" "\<not> fle a (Fin 0)"
  shows "(\<exists>more. upstream (convert_amount L w c req)
            = (''https://api.exchangerate-api.com/v4/latest/'' @ base_of L req) # more)
       \<and> (\<forall>r. reply (convert_amount L w c req) = Inr r \<longrightarrow> status r \<noteq> 400)
       \<and> (\<not> supported (base_of L req) \<or> \<not> supported (target_of L req) \<longrightarrow>
            (\<forall>r. reply (convert_amount L w c req) = Inr r \<longrightarrow> status r = 503 \<or> status r = 500))"
proof -
  note eq = convert_amount_accepted[OF assms, of w c]
  have 1: "\<exists>more. upstream (convert_amount L w c req)
            = (''https://api.exchangerate-api.com/v4/latest/'' @ base_of L req) # more"
    using fetch_requests_first_provider[of L w "base_of L req" "target_of L req"]
    by (simp add: eq Let_def)
  have names: "\<not> supported (base_of L req) \<or> \<not> supported (target_of L req) \<Longrightarrow>
      convert_result L w (base_of L req) (target_of L req) a ar \<noteq> Inr r" for ar r
    by (auto simp: convert_result_Inr currency_name_def supported_def split: option.splits)
  have 2: "status r \<noteq> 400" if "reply (convert_amount L w c req) = Inr r" for r
    using that unfolding eq
    by (auto simp: Let_def error_response_def convert_result_Inr split: option.splits sum.splits)
  have 3: "status r = 503 \<or> status r = 500"
    if "reply (convert_amount L w c req) = Inr r"
      "\<not> supported (base_of L req) \<or> \<not> supported (target_of L req)" for r
    using that(1) names[OF that(2)] unfolding eq
    by (auto simp: Let_def error_response_def split: option.splits sum.splits)
  show ?thesis using 1 2 3 by blast
qed

theorem convert_amount_unsupported_code:
  "\<not> supported ''XYZ''
   \<and> upstream (convert_amount example_lib all_down Map.empty (amount_request ''xyz'' ''CNY'' ''100''))
      = [''https://api.exchangerate-api.com/v4/latest/XYZ'',
         ''https://api.frankfurter.app/latest?from=XYZ&to=CNY'',
         ''https://open.er-api.com/v6/latest/XYZ'']
   \<and> reply (convert_amount example_lib all_down Map.empty (amount_request ''xyz'' ''CNY'' ''100''))
      = Inr (error_response example_lib all_down 503 msg_no_rate)"
proof -
  have nf: "\<not> fle (Fin 100) (Fin 0)" by simp
  have f: "get_exchange_rate_from_api example_lib all_down ''XYZ'' ''CNY'' =
     \<lparr>returned = None,
      errors = [ConnectionFailed ''ExchangeRate-API'', ConnectionFailed ''Frankfurter'',
                ConnectionFailed ''OpenExchangeRates''],
      requested = [''https://api.exchangerate-api.com/v4/latest/XYZ'',
         ''https://api.frankfurter.app/latest?from=XYZ&to=CNY'',
         ''https://open.er-api.com/v6/latest/XYZ'']\<rparr>"
    by (simp add: get_exchange_rate_from_api_def EXCHANGE_RATE_APIS_def try_api_def build_url_def
        all_down_def example_world_def)
  show ?thesis
    using convert_amount_never_validates[OF parse_amount_examples(1)[of "''xyz''" "''CNY''"] nf,
        of all_down Map.empty]
    unfolding convert_amount_accepted[OF parse_amount_examples(1) nf]
    by (simp add: amount_request_pair f supported_examples)
qed

section \<open>An amount that is not a number\<close>

lemma py_float_mul_NaN:
  "py_float_mul NaN v = Inr x \<Longrightarrow> x = PFloat NaN"
  by (cases v) (auto simp: float_of_int_def split: if_splits pyfloat.splits)

text \<open>
  C9 fails for the amount \<open>nan\<close>. The claim has a non-numeric or non-positive amount
  answered 400 before any rate is fetched, and the handler's own messages say that the
  amount must be a number and must be greater than 0. But \<open>float\<close> parses \<open>nan\<close>, and
  the test \<open>amount <= 0\<close> is false for a NaN: the handler asks the first provider, it
  never answers 400, every 200 response reports \<open>success\<close> true with the amount and the
  converted amount NaN, and for USD to CNY with no provider offering a rate it does
  answer 200. The positive, the unparsable and the non-positive amounts behave as the
  claim says, see \<open>convert_amount_product\<close>.
\<close>

theorem convert_amount_accepts_nan:
  assumes "parse_amount L (arg_amount req) = Some NaN"
  shows "(\<exists>more. upstream (convert_amount L w c req)
            = (''https://api.exchangerate-api.com/v4/latest/'' @ base_of L req) # more)
       \<and> (\<forall>r. reply (convert_amount L w c req) = Inr r \<longrightarrow> status r \<noteq> 400)
       \<and> (\<forall>r. reply (convert_amount L w c req) = Inr r \<and> status r = 200 \<longrightarrow>
             map_of (body r) ''success'' = Some (PBool True)
           \<and> map_of (body r) ''amount'' = Some (PFloat NaN)
           \<and> map_of (body r) ''converted_amount'' = Some (PFloat NaN))
       \<and> (base_of L req = ''USD'' \<and> target_of L req = ''CNY''
            \<and> (\<forall>p\<in>set EXCHANGE_RATE_APIS. offered L w p ''USD'' ''CNY'' = None) \<longrightarrow>
             (\<exists>r. reply (convert_amount L w c req) = Inr r \<and> status r = 200))"
proof -
  have nf: "\<not> fle NaN (Fin 0)" by simp
  note eq = convert_amount_accepted[OF assms nf, of w c]
  have 1: "\<exists>more. upstream (convert_amount L w c req)
            = (''https://api.exchangerate-api.com/v4/latest/'' @ base_of L req) # more"
    using fetch_requests_first_provider[of L w "base_of L req" "target_of L req"]
    by (simp add: eq Let_def)
  have 2: "status r \<noteq> 400" if "reply (convert_amount L w c req) = Inr r" for r
    using that unfolding eq
    by (auto simp: Let_def error_response_def convert_result_Inr split: option.splits sum.splits)
  have 3: "map_of (body r) ''success'' = Some (PBool True)
           \<and> map_of (body r) ''amount'' = Some (PFloat NaN)
           \<and> map_of (body r) ''converted_amount'' = Some (PFloat NaN)"
    if "reply (convert_amount L w c req) = Inr r \<and> status r = 200" for r
  proof -
    have a: "reply (convert_amount L w c req) = Inr r" "status r = 200"
      using that by simp_all
    obtain ar where "convert_result L w (base_of L req) (target_of L req) NaN ar = Inr r"
      using convert_amount_200[OF assms nf a] by blast
    then obtain v where v: "py_float_mul NaN (r_rate ar) = Inr v"
      "map_of (body r) ''success'' = Some (PBool True)"
      "map_of (body r) ''amount'' = Some (PFloat NaN)"
      "map_of (body r) ''converted_amount'' = Some v"
      by (auto simp: convert_result_Inr)
    then show ?thesis using py_float_mul_NaN[OF v(1)] by simp
  qed
  have 4: "\<exists>r. reply (convert_amount L w c req) = Inr r \<and> status r = 200"
    if h: "base_of L req = ''USD'' \<and> target_of L req = ''CNY''
            \<and> (\<forall>p\<in>set EXCHANGE_RATE_APIS. offered L w p ''USD'' ''CNY'' = None)"
  proof -
    have none: "\<forall>p\<in>set EXCHANGE_RATE_APIS. offered L w p ''USD'' ''CNY'' = None"
      using h by blast
    have ret: "returned (get_exchange_rate_from_api L w ''USD'' ''CNY'') =
              Some \<lparr>r_rate = PFloat (fl (699 / 100)),
                    r_date = PStr (strftime_ymd L (now_fetch w)),
                    r_source = default_source\<rparr>"
      using fetch_none_offered(1)[OF none] by (simp add: get_exchange_rate_from_api_def Let_def)
    show ?thesis
      unfolding eq using h ret
      by (simp add: Let_def convert_result_def ebind_def currency_name_def CURRENCY_DATA_def)
  qed
  show ?thesis
    using 1 2 3 4 by (intro conjI allI impI) blast+
qed

lemma parse_nan:
  "parse_amount example_lib (arg_amount (amount_request b t ''nan'')) = Some NaN"
  by (simp add: parse_amount_def amount_request_def example_lib_def)

theorem convert_amount_nan_example:
  "upstream (convert_amount example_lib all_down Map.empty (amount_request ''USD'' ''CNY'' ''nan''))
      = [''https://api.exchangerate-api.com/v4/latest/USD'',
         ''https://api.frankfurter.app/latest?from=USD&to=CNY'',
         ''https://open.er-api.com/v6/latest/USD'']
   \<and> (\<exists>r. reply (convert_amount example_lib all_down Map.empty
                    (amount_request ''USD'' ''CNY'' ''nan'')) = Inr r
         \<and> status r = 200
         \<and> map_of (body r) ''success'' = Some (PBool True)
         \<and> map_of (body r) ''amount'' = Some (PFloat NaN)
         \<and> map_of (body r) ''converted_amount'' = Some (PFloat NaN))"
proof -
  have none: "\<forall>p\<in>set EXCHANGE_RATE_APIS. offered example_lib all_down p ''USD'' ''CNY'' = None"
    by (simp add: offered_all_down)
  have nf: "\<not> fle NaN (Fin 0)" by simp
  have up: "upstream (convert_amount example_lib all_down Map.empty
                (amount_request ''USD'' ''CNY'' ''nan''))
      = [''https://api.exchangerate-api.com/v4/latest/USD'',
         ''https://api.frankfurter.app/latest?from=USD&to=CNY'',
         ''https://open.er-api.com/v6/latest/USD'']"
    unfolding convert_amount_accepted[OF parse_nan nf]
    by (simp add: amount_request_pair get_exchange_rate_from_api_def EXCHANGE_RATE_APIS_def
        try_api_def build_url_def all_down_def example_world_def Let_def)
  show ?thesis
    using convert_amount_accepts_nan[OF parse_nan[of "''USD''" "''CNY''"], of all_down Map.empty]
      none up
    by (auto simp: amount_request_pair)
qed

section \<open>Properties of the historical series\<close>

lemma fl_0 [simp]: "fl 0 = Fin 0"
  by (simp add: fl_def)

lemma fl_neg_consts:
  "fl (- (1 / 2)) = Fin (- (1 / 2))"
  "fl (- (3602879701896397 / 144115188075855872)) = Fin (- (3602879701896397 / 144115188075855872))"
  unfolding fl_minus fl_half fl_0025_exact by simp_all

lemma delta_bounds:
  assumes "random_random w k = Fin x" "0 \<le> x" "x < 1"
  shows "\<exists>d. delta w k = Fin d \<and> \<bar>d\<bar> \<le> 3602879701896397 / 144115188075855872"
proof -
  let ?c = "3602879701896397 / 72057594037927936 :: rat"
  obtain y where y: "fl (x - 1 / 2) = Fin y" "- (1 / 2) \<le> y" "y \<le> 1 / 2"
    using fl_between[of "- (1 / 2)" "x - 1 / 2" "1 / 2", OF _ _ fl_neg_consts(1) fl_half]
      assms(2,3) by auto
  have lo: "- (3602879701896397 / 144115188075855872) \<le> y * ?c"
    and hi: "y * ?c \<le> 3602879701896397 / 144115188075855872"
    using y(2,3) by simp_all
  obtain d where d: "fl (y * ?c) = Fin d" "- (3602879701896397 / 144115188075855872) \<le> d"
      "d \<le> 3602879701896397 / 144115188075855872"
    using fl_between[OF lo hi fl_neg_consts(2) fl_0025_exact] by auto
  have "delta w k = Fin d"
    unfolding delta_def assms(1) fsub_def fl_005
    using d(1) y(1) by simp
  then show ?thesis using d(2,3) by (auto simp: abs_le_iff)
qed

lemma uniform_bounds:
  assumes "0 \<le> x" "x < 1"
  shows "\<exists>s. uniform (fl (8 / 10)) (fl (12 / 10)) (Fin x) = Fin s
            \<and> 3602879701896397 / 4503599627370496 \<le> s \<and> s \<le> 5404319552844595 / 4503599627370496"
proof -
  let ?a = "3602879701896397 / 4503599627370496 :: rat"
  let ?g = "900719925474099 / 2251799813685248 :: rat"
  have lo: "0 \<le> ?g * x" and hi: "?g * x \<le> ?g" using assms by simp_all
  obtain m where m: "fl (?g * x) = Fin m" "0 \<le> m" "m \<le> ?g"
    using fl_between[OF lo hi fl_0 fl_gap_exact] by auto
  have lo2: "?a \<le> ?a + m" and hi2: "?a + m \<le> ?a + ?g" using m(2,3) by simp_all
  obtain s where s: "fl (?a + m) = Fin s" "?a \<le> s" "s \<le> 5404319552844595 / 4503599627370496"
    using fl_between[OF lo2 hi2 fl_08_exact fl_08_plus_gap] by auto
  have "fsub (Fin (5404319552844595 / 4503599627370496)) (Fin ?a) = Fin ?g"
    unfolding fsub_def fneg.simps fadd.simps using fl_gap by simp
  then have "uniform (fl (8 / 10)) (fl (12 / 10)) (Fin x) = Fin s"
    unfolding uniform_def fl_08 fl_12
    using m(1) s(1) by simp
  then show ?thesis using s(2,3) by blast
qed


lemma day_before:
  assumes "ebind (timedelta_days i) (datetime_sub today) = Inr date"
  shows "date = today - i * 86400000000"
  using assms
  by (auto simp: ebind_def timedelta_days_def datetime_sub_def Let_def split: if_splits sum.splits)

lemma day_before_ok:
  assumes "0 \<le> i" "i * 86400000000 \<le> today" "today < DATETIME_END"
  shows "ebind (timedelta_days i) (datetime_sub today) = Inr (today - i * 86400000000)"
proof -
  have "i * 86400000000 < 3652059 * 86400000000"
    using assms(2,3) by (simp add: DATETIME_END_def)
  then have "i < 3652059" by simp
  then show ?thesis
    using assms by (simp add: ebind_def timedelta_days_def datetime_sub_def Let_def)
qed

lemma walk_Inr:
  assumes "walk L w today days_left k r = Inr h"
  shows "length h = length days_left
       \<and> map h_date h = map (\<lambda>i. strftime_ymd L (today - i * 86400000000)) days_left
       \<and> map h_rate h = map (\<lambda>x. PFloat (fround4 x)) (running w k r (length days_left))"
  using assms
proof (induction days_left arbitrary: k r h)
  case Nil
  then show ?case by simp
next
  case (Cons i rest)
  obtain date where date: "ebind (timedelta_days i) (datetime_sub today) = Inr date"
    using Cons.prems by (cases "ebind (timedelta_days i) (datetime_sub today)") auto
  let ?rate = "fadd r (delta w k)"
  obtain h' where h': "walk L w today rest (Suc k) ?rate = Inr h'"
    using Cons.prems date
    by (cases "walk L w today rest (Suc k) ?rate") (auto simp: Let_def delta_def)
  have h: "h = \<lparr>h_date = strftime_ymd L date, h_rate = PFloat (fround4 ?rate),
                 h_timestamp = strftime_ymd_hms L date\<rparr> # h'"
    using Cons.prems date h' by (simp add: Let_def delta_def)
  show ?case
    using Cons.IH[OF h'] day_before[OF date] by (simp add: h)
qed

lemma walk_ok:
  assumes "today < DATETIME_END" "\<forall>i\<in>set days_left. 0 \<le> i \<and> i * 86400000000 \<le> today"
  shows "\<exists>h. walk L w today days_left k r = Inr h"
  using assms(2)
proof (induction days_left arbitrary: k r)
  case Nil
  then show ?case by simp
next
  case (Cons i rest)
  have d: "ebind (timedelta_days i) (datetime_sub today) = Inr (today - i * 86400000000)"
    using day_before_ok[of i today] Cons.prems assms(1) by simp
  have "\<forall>i\<in>set rest. 0 \<le> i \<and> i * 86400000000 \<le> today"
    using Cons.prems by simp
  then obtain h where "walk L w today rest (Suc k) (fadd r (delta w k)) = Inr h"
    using Cons.IH[of "Suc k" "fadd r (delta w k)"] by blast
  then show ?case using d by (simp add: Let_def delta_def)
qed

lemma running_length [simp]: "length (running w k r n) = n"
  by (induction n arbitrary: k r) simp_all

lemma running_step:
  "j < n \<Longrightarrow> running w k r n ! j
     = fadd (if j = 0 then r else running w k r n ! (j - 1)) (delta w (k + j))"
proof (induction n arbitrary: k r j)
  case 0
  then show ?case by simp
next
  case (Suc n)
  show ?case
  proof (cases j)
    case 0
    then show ?thesis by simp
  next
    case (Suc i)
    then have i: "i < n" using Suc.prems by simp
    show ?thesis
      using Suc.IH[OF i, of "Suc k" "fadd r (delta w k)"] Suc
      by (cases i) simp_all
  qed
qed

lemma synthetic_history_walk:
  "synthetic_history L w b t days =
     walk L w (now_hist_gen w) (range_down days) (if b = ''USD'' \<and> t = ''CNY'' then 0 else 1)
       (seed w b t)"
  by (simp add: synthetic_history_def seed_def)

lemma generate_cases:
  "fst (generate_historical_data L w b t days) =
     (case fst (get_historical_data_from_api L w b t days) of
        Some h \<Rightarrow> if h \<noteq> [] then Inr h else synthetic_history L w b t days
      | None \<Rightarrow> synthetic_history L w b t days)"
  by (simp add: generate_historical_data_def split: prod.splits option.splits)


lemma set_dict_items: "set (dict_items kvs) \<subseteq> set kvs"
  by (induction kvs rule: dict_items.induct) auto

lemma distinct_dict_items: "distinct (map fst (dict_items kvs))"
proof (induction kvs rule: dict_items.induct)
  case 1
  then show ?case by simp
next
  case (2 kv kvs)
  have "fst kv \<notin> fst ` set (dict_items (filter (\<lambda>kv'. fst kv' \<noteq> fst kv) kvs))"
    using set_dict_items[of "filter (\<lambda>kv'. fst kv' \<noteq> fst kv) kvs"] by auto
  then show ?case using 2 by simp
qed

lemma map_of_dict_items: "map_of (dict_items kvs) k = map_of kvs k"
proof (induction kvs rule: dict_items.induct)
  case 1
  then show ?case by simp
next
  case (2 kv kvs)
  have "map_of (filter (\<lambda>kv'. fst kv' \<noteq> fst kv) kvs) k = map_of kvs k" if "k \<noteq> fst kv"
    using that by (induction kvs) auto
  then show ?case using 2 by (cases kv) auto
qed

lemma history_item_None:
  assumes "history_item t item = Inr None"
  shows "\<not> has_rate t item"
  using assms
  by (cases item) (auto simp: history_item_def has_rate_def ebind_def split: sum.splits if_splits)

lemma history_item_point:
  assumes "history_item t item = Inr (Some p)"
  shows "has_rate t item \<and> h_date p = fst item \<and> h_timestamp p = fst item @ '' 12:00:00''
       \<and> (\<exists>v. py_getitem (snd item) t = Inr v \<and> py_round4 v = Inr (h_rate p))"
  using assms
  by (cases item) (auto simp: history_item_def has_rate_def ebind_def split: sum.splits if_splits)

lemma collect_history_dates:
  assumes "collect_history t items = Inr hist"
  shows "map h_date hist = map fst (filter (has_rate t) items)
       \<and> (\<forall>p\<in>set hist. \<exists>rs v. (h_date p, rs) \<in> set items \<and> py_getitem rs t = Inr v
              \<and> py_round4 v = Inr (h_rate p) \<and> h_timestamp p = h_date p @ '' 12:00:00'')"
proof -
  define P where "P its q \<longleftrightarrow> (\<exists>rs v. (h_date q, rs) \<in> set its \<and> py_getitem rs t = Inr v
              \<and> py_round4 v = Inr (h_rate q) \<and> h_timestamp q = h_date q @ '' 12:00:00'')"
    for its and q :: point
  have mono: "P (item # rest) q" if "P rest q" for item rest q
    using that unfolding P_def by auto
  have "map h_date hist = map fst (filter (has_rate t) items) \<and> (\<forall>p\<in>set hist. P items p)"
    using assms
  proof (induction items arbitrary: hist)
    case Nil
    then show ?case by simp
  next
    case (Cons item rest)
    obtain p where p: "history_item t item = Inr p"
      using Cons.prems by (cases "history_item t item") auto
    obtain hist' where h': "collect_history t rest = Inr hist'"
      using Cons.prems p by (cases "collect_history t rest") auto
    note ih = Cons.IH[OF h']
    show ?case
    proof (cases p)
      case None
      then have hist: "hist = hist'" using Cons.prems p h' by simp
      have no: "\<not> has_rate t item" using history_item_None[of t item] p None by simp
      show ?thesis using ih no mono by (simp add: hist)
    next
      case (Some pt)
      then have hist: "hist = pt # hist'" using Cons.prems p h' by simp
      have pt: "has_rate t item \<and> h_date pt = fst item
          \<and> h_timestamp pt = fst item @ '' 12:00:00''
          \<and> (\<exists>v. py_getitem (snd item) t = Inr v \<and> py_round4 v = Inr (h_rate pt))"
        using history_item_point[of t item pt] p Some by simp
      obtain v where v: "py_getitem (snd item) t = Inr v" "py_round4 v = Inr (h_rate pt)"
        using pt by blast
      have "P (item # rest) pt"
        unfolding P_def by (rule exI[of _ "snd item"], rule exI[of _ v]) (simp add: pt v)
      then show ?thesis using ih pt mono by (simp add: hist)
    qed
  qed
  then show ?thesis unfolding P_def by simp
qed

lemma map_insort_key: "map f (insort_key f x xs) = insort (f x) (map f xs)"
  by (induction xs) simp_all

lemma map_sort_key: "map f (sort_key f xs) = sort (map f xs)"
  by (induction xs) (simp_all add: map_insort_key)

lemma primary_Some_items:
  assumes "fst (get_historical_data_from_api L w b t days) = Some h"
  shows "\<exists>items hist. range_rates L w b t days = Some items \<and> distinct (map fst items)
           \<and> collect_history t items = Inr hist \<and> h = sort_key h_date hist"
proof -
  obtain start_date where s: "ebind (timedelta_days days) (datetime_sub (now_hist_api w)) = Inr start_date"
    using assms
    by (cases "ebind (timedelta_days days) (datetime_sub (now_hist_api w))")
      (auto simp: get_historical_data_from_api_def Let_def)
  let ?url = "historical_url L start_date (now_hist_api w) b t"
  obtain code data where r: "requests_get w ?url 15 = Response code (Inr data)"
      and c: "\<not> raise_for_status code"
    using assms s
    by (cases "requests_get w ?url 15")
      (auto simp: get_historical_data_from_api_def Let_def split: if_splits sum.splits)
  have e: "(case py_in ''rates'' data of
              Inl e \<Rightarrow> None
            | Inr present \<Rightarrow>
                if \<not> present then None
                else (case ebind (ebind (py_getitem data ''rates'') py_items) (collect_history t) of
                        Inl e \<Rightarrow> None
                      | Inr history \<Rightarrow> Some (sort_key h_date history))) = Some h"
    using assms s r c by (simp add: get_historical_data_from_api_def Let_def)
  then obtain rates where g: "py_getitem data ''rates'' = Inr rates"
    by (cases "py_getitem data ''rates''") (auto simp: ebind_def split: sum.splits if_splits)
  obtain kvs where d: "data = PDict kvs" and m: "map_of kvs ''rates'' = Some rates"
    using g by (cases data) (auto split: option.splits)
  obtain items where i: "py_items rates = Inr items"
    using e g by (cases "py_items rates") (auto simp: ebind_def split: sum.splits if_splits)
  obtain rs where rs: "rates = PDict rs" and it: "items = dict_items rs"
    using i by (cases rates) auto
  obtain hist where hist: "collect_history t items = Inr hist" and h: "h = sort_key h_date hist"
    using e g i by (auto simp: ebind_def split: sum.splits if_splits)
  have "range_rates L w b t days = Some items"
    using s r c d m rs it by (simp add: range_rates_def raise_for_status_def)
  moreover have "distinct (map fst items)"
    unfolding it by (rule distinct_dict_items)
  ultimately show ?thesis using hist h by blast
qed

lemma primary_series:
  assumes "fst (get_historical_data_from_api L w b t days) = Some h"
  shows "\<exists>items. range_rates L w b t days = Some items
           \<and> map h_date h = sort (map fst (filter (has_rate t) items))
           \<and> length h = length (filter (has_rate t) items)
           \<and> sorted_wrt (<) (map h_date h)
           \<and> (\<forall>p\<in>set h. \<exists>rs v. (h_date p, rs) \<in> set items \<and> py_getitem rs t = Inr v
                  \<and> py_round4 v = Inr (h_rate p) \<and> h_timestamp p = h_date p @ '' 12:00:00'')"
proof -
  obtain items hist where rr: "range_rates L w b t days = Some items"
    and di: "distinct (map fst items)" and c: "collect_history t items = Inr hist" and h: "h = sort_key h_date hist"
    using primary_Some_items[OF assms] by blast
  note p = collect_history_dates[OF c]
  have dates: "map h_date h = sort (map fst (filter (has_rate t) items))"
    using p by (simp add: h map_sort_key)
  have "length (map h_date h) = length (filter (has_rate t) items)"
    unfolding dates by simp
  then have len: "length h = length (filter (has_rate t) items)" by simp
  have "distinct (map fst (filter (has_rate t) items))"
    using di by (simp add: distinct_map_filter)
  then have strict: "sorted_wrt (<) (map h_date h)"
    unfolding dates by (simp add: strict_sorted_iff)
  show ?thesis using rr dates len strict p by (auto simp: h)
qed

lemma range_down_Cons: "0 \<le> d \<Longrightarrow> range_down d = d # range_down (d - 1)"
  by (simp add: range_down_def upto_rec2)

lemma range_down_set: "i \<in> set (range_down d) \<longleftrightarrow> 0 \<le> i \<and> i \<le> d"
  by (auto simp: range_down_def)

lemma days_ascending: "sorted_wrt (<) (map (\<lambda>i. today - i * 86400000000) (rev [0..days]))"
proof -
  have "sorted_wrt (\<lambda>x y. today - y * 86400000000 < today - x * 86400000000) [0..days]"
    by (rule sorted_wrt_mono_rel[OF _ sorted_wrt_upto]) simp
  then show ?thesis
    by (simp add: sorted_wrt_map sorted_wrt_rev)
qed

lemma synthetic_ok:
  assumes "0 \<le> days" "days * 86400000000 \<le> now_hist_gen w" "now_hist_gen w < DATETIME_END"
  shows "\<exists>h. synthetic_history L w b t days = Inr h
           \<and> int (length h) = days + 1
           \<and> map h_date h
               = map (\<lambda>i. strftime_ymd L (now_hist_gen w - i * 86400000000)) (rev [0..days])
           \<and> (\<forall>p\<in>set h. \<exists>x. h_rate p = PFloat (fround4 x))"
proof -
  have "\<forall>i\<in>set (range_down days). 0 \<le> i \<and> i * 86400000000 \<le> now_hist_gen w"
  proof
    fix i assume "i \<in> set (range_down days)"
    then have i: "0 \<le> i" "i \<le> days" by (simp_all add: range_down_set)
    then have "i * 86400000000 \<le> days * 86400000000" by simp
    then show "0 \<le> i \<and> i * 86400000000 \<le> now_hist_gen w" using i(1) assms(2) by linarith
  qed
  then obtain h where h: "walk L w (now_hist_gen w) (range_down days)
        (if b = ''USD'' \<and> t = ''CNY'' then 0 else 1) (seed w b t) = Inr h"
    using walk_ok[OF assms(3)] by blast
  note p = walk_Inr[OF h]
  have len: "int (length h) = days + 1"
    using p assms(1) by (simp add: range_down_def)
  have rates: "\<forall>p\<in>set h. \<exists>x. h_rate p = PFloat (fround4 x)"
  proof
    fix q assume "q \<in> set h"
    then have "h_rate q \<in> set (map h_rate h)" by simp
    then show "\<exists>x. h_rate q = PFloat (fround4 x)"
      using p by auto
  qed
  show ?thesis
    using h p len rates by (simp add: synthetic_history_walk range_down_def)
qed

lemma length_range_down: "length (range_down days) = nat (days + 1)"
  by (simp add: range_down_def)

text \<open>
  C7. The builder returns the synthetic series only when the primary path returned
  nothing or an empty list. Whenever the synthetic loop returns, it returns one point for
  each of the \<open>days + 1\<close> days, and their rates are the running rates rounded to four
  places; it does return when \<open>today - days\<close> is a representable date. The running
  rates start from the seed, which is 6.99 for USD to CNY and otherwise the draw
  \<open>uniform(0.8, 1.2)\<close>, a float from 0.8 to 1.2; each running rate is the one before
  (the seed for the first) plus that day's delta, and with \<open>random()\<close> in \<open>[0, 1)\<close>
  every delta is a float from -0.025 to 0.025.
\<close>

theorem synthetic_random_walk:
  assumes "\<forall>k. \<exists>x. random_random w k = Fin x \<and> 0 \<le> x \<and> x < 1"
  shows "fst (generate_historical_data L w b t days) =
           (case fst (get_historical_data_from_api L w b t days) of
              Some h \<Rightarrow> if h \<noteq> [] then Inr h else synthetic_history L w b t days
            | None \<Rightarrow> synthetic_history L w b t days)
       \<and> (\<forall>h. synthetic_history L w b t days = Inr h \<longrightarrow>
             length h = nat (days + 1)
           \<and> map h_rate h = map (\<lambda>x. PFloat (fround4 x))
               (running w (if b = ''USD'' \<and> t = ''CNY'' then 0 else 1) (seed w b t)
                  (nat (days + 1))))
       \<and> (0 \<le> days \<and> days * 86400000000 \<le> now_hist_gen w \<and> now_hist_gen w < DATETIME_END \<longrightarrow>
             (\<exists>h. synthetic_history L w b t days = Inr h))
       \<and> (b = ''USD'' \<and> t = ''CNY'' \<longrightarrow> seed w b t = fl (699 / 100))
       \<and> (\<not> (b = ''USD'' \<and> t = ''CNY'') \<longrightarrow>
             fle (fl (8 / 10)) (seed w b t) \<and> fle (seed w b t) (fl (12 / 10)))
       \<and> (\<forall>k. fle (fneg (fl (25 / 1000))) (delta w k) \<and> fle (delta w k) (fl (25 / 1000)))
       \<and> (\<forall>k r n j. j < n \<longrightarrow>
             running w k r n ! j
               = fadd (if j = 0 then r else running w k r n ! (j - 1)) (delta w (k + j)))"
proof -
  have rates: "length h = nat (days + 1)
           \<and> map h_rate h = map (\<lambda>x. PFloat (fround4 x))
               (running w (if b = ''USD'' \<and> t = ''CNY'' then 0 else 1) (seed w b t)
                  (nat (days + 1)))"
    if "synthetic_history L w b t days = Inr h" for h
    using walk_Inr[OF that[unfolded synthetic_history_walk]]
    by (simp only: length_range_down)
  have runs: "\<exists>h. synthetic_history L w b t days = Inr h"
    if "0 \<le> days \<and> days * 86400000000 \<le> now_hist_gen w \<and> now_hist_gen w < DATETIME_END"
  proof -
    have d: "0 \<le> days" "days * 86400000000 \<le> now_hist_gen w" "now_hist_gen w < DATETIME_END"
      using that by simp_all
    show ?thesis using synthetic_ok[OF d, of L b t] by blast
  qed
  have usd: "b = ''USD'' \<and> t = ''CNY'' \<Longrightarrow> seed w b t = fl (699 / 100)"
    by (simp add: seed_def)
  have other: "fle (fl (8 / 10)) (seed w b t) \<and> fle (seed w b t) (fl (12 / 10))"
    if "\<not> (b = ''USD'' \<and> t = ''CNY'')"
  proof -
    obtain x where x: "random_random w 0 = Fin x" "0 \<le> x" "x < 1"
      using assms by blast
    obtain s where s: "uniform (fl (8 / 10)) (fl (12 / 10)) (Fin x) = Fin s"
      "3602879701896397 / 4503599627370496 \<le> s" "s \<le> 5404319552844595 / 4503599627370496"
      using uniform_bounds[OF x(2,3)] by blast
    have "seed w b t = uniform (fl (8 / 10)) (fl (12 / 10)) (random_random w 0)"
      unfolding seed_def using that by (simp only: if_False)
    then have "seed w b t = Fin s"
      using s(1) x(1) by (simp only:)
    then show ?thesis
      unfolding fl_08 fl_12 using s(2,3) by simp
  qed
  have dl: "fle (fneg (fl (25 / 1000))) (delta w k) \<and> fle (delta w k) (fl (25 / 1000))" for k
  proof -
    obtain x where x: "random_random w k = Fin x" "0 \<le> x" "x < 1"
      using assms by blast
    obtain d where d: "delta w k = Fin d" "\<bar>d\<bar> \<le> 3602879701896397 / 144115188075855872"
      using delta_bounds[OF x] by blast
    have "- (3602879701896397 / 144115188075855872) \<le> d"
      "d \<le> 3602879701896397 / 144115188075855872"
      using d(2) by linarith+
    then show ?thesis
      unfolding fl_0025 d(1) by simp
  qed
  show ?thesis
    using generate_cases[of L w b t days] rates runs usd other dl running_step
    by (intro conjI allI impI) blast+
qed

lemma primary_all_down:
  "fst (get_historical_data_from_api example_lib all_down b t 1) = None"
  by (simp add: get_historical_data_from_api_def all_down_def example_world_def ebind_def
      timedelta_days_def datetime_sub_def DATETIME_END_def noon_def Let_def)

text \<open>
  With \<open>random()\<close> returning 0.25 every delta is -0.0125, and the USD to CNY series for
  one day back runs from 6.99 to the floats 6.9775 and 6.965.
\<close>

lemma fl_quarter: "fl (1 / 4) = Fin (1 / 4)"
  using fl_eval[of "- 2" "1 / 4" 4503599627370496] by simp

lemma fl_step:
  "fl (3602879701896397 / 288230376151711744) = Fin (3602879701896397 / 288230376151711744)"
  using fl_eval[of "- 7" "3602879701896397 / 288230376151711744" 7205759403792794] by simp

lemma delta_quarter:
  assumes "random_random w k = Fin (1 / 4)"
  shows "delta w k = Fin (- (3602879701896397 / 288230376151711744))"
proof -
  have "fsub (Fin (1 / 4)) (Fin (1 / 2)) = Fin (- (1 / 4))"
    using fl_minus[of "1 / 4"] by (simp add: fsub_def fl_quarter)
  moreover have "fmul (Fin (- (1 / 4))) (Fin (3602879701896397 / 72057594037927936))
      = Fin (- (3602879701896397 / 288230376151711744))"
    using fl_minus[of "3602879701896397 / 288230376151711744"] by (simp add: fl_step)
  ultimately show ?thesis
    unfolding delta_def assms fl_005 by (simp only:)
qed

lemma first_rate:
  "fadd (Fin (3935020174414971 / 562949953421312)) (Fin (- (3602879701896397 / 288230376151711744)))
     = Fin (7855966599994409 / 1125899906842624)"
  using fl_eval[of 2 "3935020174414971 / 562949953421312 - 3602879701896397 / 288230376151711744"
      7855966599994409]
  by simp

lemma second_rate:
  "fadd (Fin (7855966599994409 / 1125899906842624)) (Fin (- (3602879701896397 / 288230376151711744)))
     = Fin (1960473212789719 / 281474976710656)"
  using fl_eval[of 2 "7855966599994409 / 1125899906842624 - 3602879701896397 / 288230376151711744"
      7841892851158876]
  by simp

lemma fround4_rates:
  "fround4 (Fin (7855966599994409 / 1125899906842624)) = Fin (7855966599994409 / 1125899906842624)"
  "fround4 (Fin (1960473212789719 / 281474976710656)) = Fin (1960473212789719 / 281474976710656)"
proof -
  have "rne (7855966599994409 / 1125899906842624 * 10000) = 69775"
    using rne_eqI[of "7855966599994409 / 1125899906842624 * 10000" 69775] by simp
  then show "fround4 (Fin (7855966599994409 / 1125899906842624))
      = Fin (7855966599994409 / 1125899906842624)"
    using fl_eval[of 2 "69775 / 10000" 7855966599994409] by simp
  have "rne (1960473212789719 / 281474976710656 * 10000) = 69650"
    using rne_eqI[of "1960473212789719 / 281474976710656 * 10000" 69650] by simp
  then show "fround4 (Fin (1960473212789719 / 281474976710656))
      = Fin (1960473212789719 / 281474976710656)"
    using fl_eval[of 2 "69650 / 10000" 7841892851158876] by simp
qed

lemma running_all_down:
  "map (\<lambda>x. PFloat (fround4 x)) (running all_down 0 (seed all_down ''USD'' ''CNY'') 2)
     = [PFloat (Fin (7855966599994409 / 1125899906842624)),
        PFloat (Fin (1960473212789719 / 281474976710656))]"
proof -
  have d: "delta all_down k = Fin (- (3602879701896397 / 288230376151711744))" for k
    by (rule delta_quarter) (simp add: all_down_def example_world_def)
  have s: "seed all_down ''USD'' ''CNY'' = Fin (3935020174414971 / 562949953421312)"
    by (simp add: seed_def fl_699)
  have "running all_down 0 (seed all_down ''USD'' ''CNY'') (Suc (Suc 0))
      = [Fin (7855966599994409 / 1125899906842624), Fin (1960473212789719 / 281474976710656)]"
    by (simp only: running.simps d s first_rate second_rate)
  then show ?thesis
    by (simp only: numeral_2_eq_2 list.map fround4_rates)
qed


theorem synthetic_random_walk_witness:
  "fst (generate_historical_data example_lib all_down ''USD'' ''CNY'' 1)
     = synthetic_history example_lib all_down ''USD'' ''CNY'' 1
   \<and> (\<exists>h. synthetic_history example_lib all_down ''USD'' ''CNY'' 1 = Inr h
         \<and> length h = 2
         \<and> map h_rate h = [PFloat (Fin (7855966599994409 / 1125899906842624)),
                            PFloat (Fin (1960473212789719 / 281474976710656))])
   \<and> fst (generate_historical_data example_lib all_down ''EUR'' ''USD'' 1)
       = synthetic_history example_lib all_down ''EUR'' ''USD'' 1
   \<and> (\<exists>h. synthetic_history example_lib all_down ''EUR'' ''USD'' 1 = Inr h \<and> length h = 2)
   \<and> seed all_down ''USD'' ''CNY'' = fl (699 / 100)
   \<and> fle (fl (8 / 10)) (seed all_down ''EUR'' ''USD'')
   \<and> fle (seed all_down ''EUR'' ''USD'') (fl (12 / 10))
   \<and> fle (fneg (fl (25 / 1000))) (delta all_down 0)
   \<and> fle (delta all_down 0) (fl (25 / 1000))
   \<and> running all_down 1 (seed all_down ''EUR'' ''USD'') 2 ! 1
       = fadd (running all_down 1 (seed all_down ''EUR'' ''USD'') 2 ! 0) (delta all_down 2)"
proof -
  have rnd: "\<forall>k. \<exists>x. random_random all_down k = Fin x \<and> 0 \<le> x \<and> x < 1"
    by (auto simp: all_down_def example_world_def intro!: exI[of _ "1 / 4"])
  have j: "(1::nat) < 2" by simp
  have r: "(0::int) \<le> 1 \<and> 1 * 86400000000 \<le> now_hist_gen all_down
      \<and> now_hist_gen all_down < DATETIME_END"
    by (simp add: all_down_def example_world_def noon_def DATETIME_END_def)
  have n: "nat (1 + 1) = 2" by simp
  note A = synthetic_random_walk[OF rnd, of example_lib "''USD''" "''CNY''" 1]
  note B = synthetic_random_walk[OF rnd, of example_lib "''EUR''" "''USD''" 1]
  have 1: "\<exists>h. synthetic_history example_lib all_down ''USD'' ''CNY'' 1 = Inr h
         \<and> length h = 2
         \<and> map h_rate h = [PFloat (Fin (7855966599994409 / 1125899906842624)),
                            PFloat (Fin (1960473212789719 / 281474976710656))]"
    using A r running_all_down unfolding n by auto
  have 2: "\<exists>h. synthetic_history example_lib all_down ''EUR'' ''USD'' 1 = Inr h \<and> length h = 2"
    using B r unfolding n by auto
  show ?thesis
    using A B 1 2 primary_all_down[of "''EUR''" "''USD''"] primary_all_down[of "''USD''" "''CNY''"] j
    by (auto simp: numeral_2_eq_2)
qed

text \<open>
  C6, as the code has it. When the primary path returns a non-empty list, the builder
  returns that list, and the list is read off the provider's response: one point for
  each date of the response's \<open>rates\<close> object that holds a rate for the target, however
  many they are, with that date, the rate \<open>round(v, 4)\<close> of the value \<open>v\<close> found
  there and the timestamp of noon, in strictly ascending order of the dates. When the
  primary path returns nothing or an empty list, and \<open>days\<close> is not negative and
  \<open>today - days\<close> is not before the first representable date, the builder returns
  exactly \<open>days + 1\<close> points, dated \<open>today - days\<close>, ..., \<open>today\<close> in this order,
  one day apart, each rate a running rate rounded to four places.
\<close>

theorem historical_series_shape:
  "(\<forall>h. fst (get_historical_data_from_api L w b t days) = Some h \<and> h \<noteq> [] \<longrightarrow>
        fst (generate_historical_data L w b t days) = Inr h
      \<and> (\<exists>items. range_rates L w b t days = Some items
            \<and> map h_date h = sort (map fst (filter (has_rate t) items))
            \<and> length h = length (filter (has_rate t) items)
            \<and> (\<forall>p\<in>set h. \<exists>rs v. (h_date p, rs) \<in> set items \<and> py_getitem rs t = Inr v
                   \<and> py_round4 v = Inr (h_rate p)
                   \<and> h_timestamp p = h_date p @ '' 12:00:00''))
      \<and> sorted_wrt (<) (map h_date h))
   \<and> (0 \<le> days \<and> days * 86400000000 \<le> now_hist_gen w \<and> now_hist_gen w < DATETIME_END
        \<and> (fst (get_historical_data_from_api L w b t days) = None
             \<or> fst (get_historical_data_from_api L w b t days) = Some []) \<longrightarrow>
        (\<exists>h. fst (generate_historical_data L w b t days) = Inr h
           \<and> int (length h) = days + 1
           \<and> map h_date h
               = map (\<lambda>i. strftime_ymd L (now_hist_gen w - i * 86400000000)) (rev [0..days])
           \<and> sorted_wrt (<) (map (\<lambda>i. now_hist_gen w - i * 86400000000) (rev [0..days]))
           \<and> (\<forall>p\<in>set h. \<exists>x. h_rate p = PFloat (fround4 x))))"
proof -
  have primary: "fst (generate_historical_data L w b t days) = Inr h
      \<and> (\<exists>items. range_rates L w b t days = Some items
            \<and> map h_date h = sort (map fst (filter (has_rate t) items))
            \<and> length h = length (filter (has_rate t) items)
            \<and> (\<forall>p\<in>set h. \<exists>rs v. (h_date p, rs) \<in> set items \<and> py_getitem rs t = Inr v
                   \<and> py_round4 v = Inr (h_rate p)
                   \<and> h_timestamp p = h_date p @ '' 12:00:00''))
      \<and> sorted_wrt (<) (map h_date h)"
    if a: "fst (get_historical_data_from_api L w b t days) = Some h \<and> h \<noteq> []" for h
  proof -
    have g: "fst (generate_historical_data L w b t days) = Inr h"
      using a by (simp add: generate_cases)
    have p: "fst (get_historical_data_from_api L w b t days) = Some h"
      using a by simp
    show ?thesis
      using g primary_series[OF p] by (simp only:) blast
  qed
  have synthetic: "\<exists>h. fst (generate_historical_data L w b t days) = Inr h
           \<and> int (length h) = days + 1
           \<and> map h_date h
               = map (\<lambda>i. strftime_ymd L (now_hist_gen w - i * 86400000000)) (rev [0..days])
           \<and> sorted_wrt (<) (map (\<lambda>i. now_hist_gen w - i * 86400000000) (rev [0..days]))
           \<and> (\<forall>p\<in>set h. \<exists>x. h_rate p = PFloat (fround4 x))"
    if a: "0 \<le> days \<and> days * 86400000000 \<le> now_hist_gen w \<and> now_hist_gen w < DATETIME_END
        \<and> (fst (get_historical_data_from_api L w b t days) = None
             \<or> fst (get_historical_data_from_api L w b t days) = Some [])"
  proof -
    have g: "fst (generate_historical_data L w b t days) = synthetic_history L w b t days"
      using a by (auto simp: generate_cases)
    have d: "0 \<le> days" "days * 86400000000 \<le> now_hist_gen w" "now_hist_gen w < DATETIME_END"
      using a by simp_all
    show ?thesis
      using synthetic_ok[OF d, of L b t] days_ascending[of "now_hist_gen w" days]
      unfolding g by blast
  qed
  show ?thesis
    using primary synthetic by (intro conjI allI impI) blast+
qed


lemma rne_numeral [simp]: "rne (numeral n) = numeral n"
  using rne_of_int[of "numeral n"] by simp

lemma fl_7125: "fl (57 / 8) = Fin (57 / 8)"
  using fl_eval[of 2 "57 / 8" 8022036836253696] by simp

lemma fround4_7125: "fround4 (Fin (57 / 8)) = Fin (57 / 8)"
  using fl_7125 by simp

lemma primary_one_point:
  "fst (get_historical_data_from_api example_lib one_point ''USD'' ''CNY'' 7) =
     Some [\<lparr>h_date = ''2026-11-02'', h_rate = PFloat (Fin (57 / 8)),
            h_timestamp = ''2026-11-02 12:00:00''\<rparr>]"
proof -
  have start: "ebind (timedelta_days 7) (datetime_sub noon) = Inr (noon - 7 * 86400000000)"
    by (simp add: ebind_def timedelta_days_def datetime_sub_def DATETIME_END_def noon_def)
  have get: "requests_get one_point
      (historical_url example_lib (noon - 7 * 86400000000) noon ''USD'' ''CNY'') 15
      = Response 200 (Inr (PDict [(''rates'',
         PDict [(''2026-11-02'', PDict [(''CNY'', PFloat (Fin (57 / 8)))])])]))"
    by (simp add: one_point_def example_world_def)
  have now: "now_hist_api one_point = noon"
    by (simp add: one_point_def example_world_def)
  show ?thesis
    apply (simp only: get_historical_data_from_api_def Let_def now)
    apply (simp only: start sum.case get)
    apply (simp add: raise_for_status_def ebind_def history_item_def fl_7125)
    done
qed

lemma generate_overflow:
  "fst (generate_historical_data example_lib all_down ''EUR'' ''USD'' 800000) = Inl OverflowError"
proof -
  have o: "ebind (timedelta_days 800000) (datetime_sub noon) = Inl OverflowError"
    by (simp add: ebind_def timedelta_days_def datetime_sub_def noon_def)
  have n: "now_hist_api all_down = noon" "now_hist_gen all_down = noon"
    by (simp_all add: all_down_def example_world_def)
  have p: "fst (get_historical_data_from_api example_lib all_down ''EUR'' ''USD'' 800000) = None"
    by (simp add: get_historical_data_from_api_def n o)
  have "walk example_lib all_down noon (800000 # range_down (800000 - 1)) k r = Inl OverflowError"
    for k r
    by (simp add: o)
  then have "synthetic_history example_lib all_down ''EUR'' ''USD'' 800000 = Inl OverflowError"
    unfolding synthetic_history_walk n using range_down_Cons[of 800000] by simp
  then show ?thesis
    by (simp add: generate_cases p)
qed

text \<open>
  C6 as stated fails on both paths. On the primary path, asked for 7 days, a provider
  that answers with one date yields a series of one point, not eight. On the synthetic
  path, asked for 800000 days on 2026-11-03, the builder raises OverflowError and
  returns no series at all.
\<close>

theorem primary_series_is_shorter:
  "fst (generate_historical_data example_lib one_point ''USD'' ''CNY'' 7) =
     Inr [\<lparr>h_date = ''2026-11-02'', h_rate = PFloat (Fin (57 / 8)),
            h_timestamp = ''2026-11-02 12:00:00''\<rparr>]
   \<and> int (length [\<lparr>h_date = ''2026-11-02'', h_rate = PFloat (Fin (57 / 8)),
            h_timestamp = ''2026-11-02 12:00:00''\<rparr>]) \<noteq> 7 + 1
   \<and> fst (generate_historical_data example_lib all_down ''EUR'' ''USD'' 800000)
       = Inl OverflowError"
  using generate_overflow by (simp add: generate_cases primary_one_point)

lemma primary_all_down_7:
  "fst (get_historical_data_from_api example_lib all_down b t 7) = None"
  by (simp add: get_historical_data_from_api_def all_down_def example_world_def ebind_def
      timedelta_days_def datetime_sub_def DATETIME_END_def noon_def Let_def)

lemma date_order:
  "\<not> ''2026-11-02'' \<le> ''2026-10-29''" "''2026-10-29'' \<le> ''2026-11-02''"
  "sort [''2026-11-02'', ''2026-10-29''] = [''2026-10-29'', ''2026-11-02'']"
  by code_simp+

lemma range_rates_sparse:
  "range_rates example_lib sparse_range ''USD'' ''CNY'' 7 =
     Some [(''2026-11-02'', PDict [(''CNY'', PFloat (Fin (57 / 8)))]),
           (''2026-10-30'', PDict [(''EUR'', PFloat (Fin 1))]),
           (''2026-10-29'', PDict [(''CNY'', PInt 7)])]"
proof -
  have start: "ebind (timedelta_days 7) (datetime_sub noon) = Inr (noon - 7 * 86400000000)"
    by (simp add: ebind_def timedelta_days_def datetime_sub_def DATETIME_END_def noon_def)
  have get: "requests_get sparse_range
      (historical_url example_lib (noon - 7 * 86400000000) noon ''USD'' ''CNY'') 15
      = Response 200 (Inr (PDict [(''rates'',
         PDict [(''2026-11-02'', PDict [(''CNY'', PFloat (Fin (57 / 8)))]),
                (''2026-10-30'', PDict [(''EUR'', PFloat (Fin 1))]),
                (''2026-10-29'', PDict [(''CNY'', PInt 7)])])]))"
    by (simp add: sparse_range_def example_world_def)
  have now: "now_hist_api sparse_range = noon"
    by (simp add: sparse_range_def example_world_def)
  show ?thesis
    apply (simp only: range_rates_def now)
    apply (simp only: start sum.case get)
    apply simp
    done
qed

lemma primary_sparse:
  "fst (get_historical_data_from_api example_lib sparse_range ''USD'' ''CNY'' 7) =
     Some [\<lparr>h_date = ''2026-10-29'', h_rate = PInt 7, h_timestamp = ''2026-10-29 12:00:00''\<rparr>,
           \<lparr>h_date = ''2026-11-02'', h_rate = PFloat (Fin (57 / 8)),
            h_timestamp = ''2026-11-02 12:00:00''\<rparr>]"
proof -
  have start: "ebind (timedelta_days 7) (datetime_sub noon) = Inr (noon - 7 * 86400000000)"
    by (simp add: ebind_def timedelta_days_def datetime_sub_def DATETIME_END_def noon_def)
  have get: "requests_get sparse_range
      (historical_url example_lib (noon - 7 * 86400000000) noon ''USD'' ''CNY'') 15
      = Response 200 (Inr (PDict [(''rates'',
         PDict [(''2026-11-02'', PDict [(''CNY'', PFloat (Fin (57 / 8)))]),
                (''2026-10-30'', PDict [(''EUR'', PFloat (Fin 1))]),
                (''2026-10-29'', PDict [(''CNY'', PInt 7)])])]))"
    by (simp add: sparse_range_def example_world_def)
  have now: "now_hist_api sparse_range = noon"
    by (simp add: sparse_range_def example_world_def)
  show ?thesis
    apply (simp only: get_historical_data_from_api_def Let_def now)
    apply (simp only: start sum.case get)
    apply (simp add: raise_for_status_def ebind_def history_item_def fl_7125 date_order
        del: less_eq_literal.rep_eq)
    done
qed

theorem historical_series_shape_witness:
  "(\<exists>h. fst (generate_historical_data example_lib all_down ''USD'' ''CNY'' 7) = Inr h
       \<and> int (length h) = 8
       \<and> map h_date h = map (\<lambda>i. strftime_ymd example_lib (noon - i * 86400000000))
                          [7, 6, 5, 4, 3, 2, 1, 0])
   \<and> fst (generate_historical_data example_lib sparse_range ''USD'' ''CNY'' 7) =
       Inr [\<lparr>h_date = ''2026-10-29'', h_rate = PInt 7, h_timestamp = ''2026-10-29 12:00:00''\<rparr>,
            \<lparr>h_date = ''2026-11-02'', h_rate = PFloat (Fin (57 / 8)),
             h_timestamp = ''2026-11-02 12:00:00''\<rparr>]
   \<and> (\<exists>items. range_rates example_lib sparse_range ''USD'' ''CNY'' 7 = Some items
         \<and> length items = 3
         \<and> [''2026-10-29'', ''2026-11-02''] = sort (map fst (filter (has_rate ''CNY'') items))
         \<and> 2 = length (filter (has_rate ''CNY'') items))"
proof -
  let ?h = "[\<lparr>h_date = ''2026-10-29'', h_rate = PInt 7, h_timestamp = ''2026-10-29 12:00:00''\<rparr>,
            \<lparr>h_date = ''2026-11-02'', h_rate = PFloat (Fin (57 / 8)),
             h_timestamp = ''2026-11-02 12:00:00''\<rparr>]"
  have n1: "now_hist_gen all_down = noon"
    by (simp add: all_down_def example_world_def)
  have r: "7 * 86400000000 \<le> noon" "noon < DATETIME_END"
    by (simp_all add: noon_def DATETIME_END_def)
  have up: "rev [0..7::int] = [7, 6, 5, 4, 3, 2, 1, 0]"
    by (simp add: upto_rec1)
  have 1: "\<exists>h. fst (generate_historical_data example_lib all_down ''USD'' ''CNY'' 7) = Inr h
       \<and> int (length h) = 8
       \<and> map h_date h = map (\<lambda>i. strftime_ymd example_lib (noon - i * 86400000000))
                          [7, 6, 5, 4, 3, 2, 1, 0]"
    using historical_series_shape[of example_lib all_down "''USD''" "''CNY''" 7]
      primary_all_down_7[of "''USD''" "''CNY''"]
    unfolding n1 up using r by auto
  have p: "fst (get_historical_data_from_api example_lib sparse_range ''USD'' ''CNY'' 7) = Some ?h
      \<and> ?h \<noteq> []"
    using primary_sparse by simp
  have 2: "fst (generate_historical_data example_lib sparse_range ''USD'' ''CNY'' 7) = Inr ?h
      \<and> (\<exists>items. range_rates example_lib sparse_range ''USD'' ''CNY'' 7 = Some items
            \<and> map h_date ?h = sort (map fst (filter (has_rate ''CNY'') items))
            \<and> length ?h = length (filter (has_rate ''CNY'') items))"
    using historical_series_shape[of example_lib sparse_range "''USD''" "''CNY''" 7] p
    by blast
  show ?thesis
    using 1 2 by (simp add: range_rates_sparse)
qed

section \<open>Properties of the historical endpoint\<close>

lemma generate_ok:
  assumes "days < 0 \<or> days * 86400000000 \<le> now_hist_gen w" "now_hist_gen w < DATETIME_END"
  shows "\<exists>h. fst (generate_historical_data L w b t days) = Inr h"
proof -
  have syn: "\<exists>h. synthetic_history L w b t days = Inr h"
  proof (cases "days < 0")
    case True
    then have "range_down days = []" by (simp add: range_down_def)
    then show ?thesis by (simp add: synthetic_history_walk)
  next
    case False
    then show ?thesis
      using synthetic_ok[of days w L b t] assms by auto
  qed
  show ?thesis
    using syn by (auto simp: generate_cases split: option.splits)
qed

lemma get_historical_data_supported:
  assumes "supported (base_of L req)" "supported (target_of L req)"
    and "fst (generate_historical_data L w (base_of L req) (target_of L req) (days_of L req)) = Inr h"
  shows "reply (get_historical_data L w c req) =
     Inr \<lparr>status = 200,
          body = [(''success'', PBool True),
                  (''base_currency'', PStr (base_of L req)),
                  (''target_currency'', PStr (target_of L req)),
                  (''current_rate'',
                     case returned (get_exchange_rate_from_api L w (base_of L req) (target_of L req))
                     of None \<Rightarrow>
                          if base_of L req = ''USD'' \<and> target_of L req = ''CNY''
                          then PFloat (fl (699 / 100)) else PFloat (Fin 1)
                      | Some current_rate_data \<Rightarrow> r_rate current_rate_data),
                  (''historical_data'', PList (map point_json h)),
                  (''days'', PInt (days_of L req)),
                  (''timestamp'', time_stamp L w)]\<rparr>"
proof -
  obtain urls where g: "generate_historical_data L w (base_of L req) (target_of L req)
      (days_of L req) = (Inr h, urls)"
    using assms(3)
    by (cases "generate_historical_data L w (base_of L req) (target_of L req) (days_of L req)")
      auto
  show ?thesis
    using assms(1,2) g unfolding get_historical_data_def base_of_def target_of_def days_of_def
    by (simp add: Let_def)
qed

lemma get_historical_data_raises:
  assumes "supported (base_of L req)" "supported (target_of L req)"
    and "fst (generate_historical_data L w (base_of L req) (target_of L req) (days_of L req)) = Inl e"
  shows "reply (get_historical_data L w c req) =
     Inr \<lparr>status = 500,
          body = [(''success'', PBool False),
                  (''error'', PStr (msg_hist_failed @ str_of_exc L e)),
                  (''timestamp'', time_stamp L w)]\<rparr>"
proof -
  obtain urls where g: "generate_historical_data L w (base_of L req) (target_of L req)
      (days_of L req) = (Inl e, urls)"
    using assms(3)
    by (cases "generate_historical_data L w (base_of L req) (target_of L req) (days_of L req)")
      auto
  show ?thesis
    using assms(1,2) g unfolding get_historical_data_def base_of_def target_of_def days_of_def
    by (simp add: Let_def)
qed

text \<open>
  C10, as the code has it. For a supported pair that no provider offers a rate for, the
  historical endpoint answers 200 with \<open>success\<close> true and reports as \<open>current_rate\<close>
  6.99 for USD to CNY and 1.0 for every other pair, provided the requested number of
  days is negative (the series is then empty) or does not reach back before the first
  representable date.
\<close>

theorem historical_endpoint_default_rate:
  assumes "supported (base_of L req)" "supported (target_of L req)"
    and "\<forall>p\<in>set EXCHANGE_RATE_APIS. offered L w p (base_of L req) (target_of L req) = None"
    and "days_of L req < 0 \<or> days_of L req * 86400000000 \<le> now_hist_gen w"
    and "now_hist_gen w < DATETIME_END"
  shows "\<exists>r. reply (get_historical_data L w c req) = Inr r
           \<and> status r = 200
           \<and> map_of (body r) ''success'' = Some (PBool True)
           \<and> map_of (body r) ''current_rate'' =
               Some (if base_of L req = ''USD'' \<and> target_of L req = ''CNY''
                     then PFloat (fl (699 / 100)) else PFloat (Fin 1))"
proof -
  obtain h where h: "fst (generate_historical_data L w (base_of L req) (target_of L req)
      (days_of L req)) = Inr h"
    using generate_ok[OF assms(4,5)] by blast
  have ret: "returned (get_exchange_rate_from_api L w (base_of L req) (target_of L req)) =
      (if base_of L req = ''USD'' \<and> target_of L req = ''CNY''
       then Some \<lparr>r_rate = PFloat (fl (699 / 100)),
                  r_date = PStr (strftime_ymd L (now_fetch w)), r_source = default_source\<rparr>
       else None)"
    using fetch_none_offered(1)[OF assms(3)] by (simp add: get_exchange_rate_from_api_def Let_def)
  show ?thesis
    unfolding get_historical_data_supported[OF assms(1,2) h] ret
    by auto
qed

lemma parse_800000: "parse_decimal ''800000'' = Some 800000" "parse_decimal ''7'' = Some 7"
  and parse_30: "parse_decimal ''30'' = Some 30"
  by code_simp+

lemma days_request_parts:
  "base_of example_lib (days_request ''eur'' ''usd'' d) = ''EUR''"
  "target_of example_lib (days_request ''eur'' ''usd'' d) = ''USD''"
  "days_of example_lib (days_request b t ''800000'') = 800000"
  "days_of example_lib (days_request b t ''7'') = 7"
  by (simp_all add: base_of_def target_of_def days_of_def days_request_def args_get_def
      example_lib_def upper_examples parse_800000)

text \<open>
  C10 as stated fails for a request that reaches too far back: with \<open>days=800000\<close> on
  2026-11-03 the date arithmetic raises OverflowError in both paths of the builder, and
  the endpoint answers 500 with \<open>success\<close> false.
\<close>

theorem historical_endpoint_fails_on_far_past:
  "returned (get_exchange_rate_from_api example_lib all_down ''EUR'' ''USD'') = None
   \<and> supported ''EUR'' \<and> supported ''USD''
   \<and> reply (get_historical_data example_lib all_down Map.empty (days_request ''eur'' ''usd'' ''800000''))
     = Inr \<lparr>status = 500,
            body = [(''success'', PBool False),
                    (''error'', PStr (msg_hist_failed @ str_of_exc example_lib OverflowError)),
                    (''timestamp'', time_stamp example_lib all_down)]\<rparr>"
proof -
  have none: "\<forall>p\<in>set EXCHANGE_RATE_APIS. offered example_lib all_down p ''EUR'' ''USD'' = None"
    by (simp add: offered_all_down)
  have ret: "returned (get_exchange_rate_from_api example_lib all_down ''EUR'' ''USD'') = None"
    using fetch_none_offered(1)[OF none] by (simp add: get_exchange_rate_from_api_def Let_def)
  have "reply (get_historical_data example_lib all_down Map.empty (days_request ''eur'' ''usd'' ''800000''))
     = Inr \<lparr>status = 500,
            body = [(''success'', PBool False),
                    (''error'', PStr (msg_hist_failed @ str_of_exc example_lib OverflowError)),
                    (''timestamp'', time_stamp example_lib all_down)]\<rparr>"
    by (rule get_historical_data_raises)
      (simp_all add: days_request_parts supported_examples generate_overflow)
  then show ?thesis
    using ret supported_examples by simp
qed

theorem historical_endpoint_default_rate_witness:
  "(\<exists>r. reply (get_historical_data example_lib all_down Map.empty (days_request ''eur'' ''usd'' ''7''))
         = Inr r
       \<and> status r = 200 \<and> map_of (body r) ''success'' = Some (PBool True)
       \<and> map_of (body r) ''current_rate'' = Some (PFloat (Fin 1)))
   \<and> (\<exists>r. reply (get_historical_data example_lib all_down Map.empty no_args) = Inr r
       \<and> status r = 200 \<and> map_of (body r) ''success'' = Some (PBool True)
       \<and> map_of (body r) ''current_rate'' = Some (PFloat (fl (699 / 100))))"
proof -
  have none: "\<forall>p\<in>set EXCHANGE_RATE_APIS. offered example_lib all_down p b t = None" for b t
    by (simp add: offered_all_down)
  have n: "now_hist_gen all_down = noon"
    by (simp add: all_down_def example_world_def)
  have d30: "days_of example_lib no_args = 30"
    by (simp add: days_of_def no_args_def args_get_def example_lib_def parse_30)
  have r: "7 * 86400000000 \<le> noon" "30 * 86400000000 \<le> noon" "noon < DATETIME_END"
    by (simp_all add: noon_def DATETIME_END_def)
  show ?thesis
    using historical_endpoint_default_rate[of example_lib "days_request ''eur'' ''usd'' ''7''"
        all_down Map.empty]
      historical_endpoint_default_rate[of example_lib no_args all_down Map.empty]
      none r
    by (simp add: days_request_parts no_args_pair supported_examples n d30)
qed

end
